theory Spec2Isabelle
  imports Complex_Main "HOL-Library.Signed_Division"
begin

section \<open>The adaptive leaflet of \<^verbatim>\<open>hdy-leaflet.c\<close>\<close>

text \<open>
  The development embeds the leaflet container of \<^verbatim>\<open>src/src/hdy-leaflet.c\<close>: its
  private structure, the fold decision of the size allocation, the folded and the
  unfolded layout, the mode transition, the child transition and the swipe entry points.

  Conventions of the embedding.
  \<^item> A \<^verbatim>\<open>gint\<close> is an \<^typ>\<open>int\<close> and a \<^verbatim>\<open>guint\<close> a \<^typ>\<open>nat\<close>; signed overflow is
    undefined in C and is not modelled. A \<^verbatim>\<open>gdouble\<close> is a \<^typ>\<open>real\<close>; the cast
    \<^verbatim>\<open>(gint)\<close> of a double truncates towards zero.
  \<^item> A pointer to a child info or to a widget is a \<^typ>\<open>nat\<close>, a pointer that may be
    \<^verbatim>\<open>NULL\<close> a \<^typ>\<open>nat option\<close>. The child infos live in the store \<open>infos\<close>, the
    toolkit's per-widget state in the store \<open>widgets\<close>.
  \<^item> A function of the source that can dereference \<^verbatim>\<open>NULL\<close> or divide by zero returns
    an \<^typ>\<open>'a option\<close>; \<^term>\<open>None\<close> is the crash.
  \<^item> Of the toolkit's side the model keeps what the leaflet asks for: the child-visible
    flag and the allocation of every child widget, the geometry of the two windows of the
    leaflet, and the pending requests \<^verbatim>\<open>gtk_widget_queue_draw\<close>,
    \<^verbatim>\<open>gtk_widget_queue_resize\<close> and \<^verbatim>\<open>gtk_widget_queue_allocate\<close>. Drawing, the cached
    surfaces, the shadow helper, signals and property notifications are left out.
\<close>

subsection \<open>Enumerations and structures\<close>

datatype GtkOrientation = GTK_ORIENTATION_HORIZONTAL | GTK_ORIENTATION_VERTICAL

datatype GtkTextDirection = GTK_TEXT_DIR_NONE | GTK_TEXT_DIR_LTR | GTK_TEXT_DIR_RTL

datatype GtkPanDirection =
  GTK_PAN_DIRECTION_LEFT | GTK_PAN_DIRECTION_RIGHT | GTK_PAN_DIRECTION_UP | GTK_PAN_DIRECTION_DOWN

datatype HdyLeafletTransitionType =
  HDY_LEAFLET_TRANSITION_TYPE_NONE
  | HDY_LEAFLET_TRANSITION_TYPE_SLIDE
  | HDY_LEAFLET_TRANSITION_TYPE_OVER
  | HDY_LEAFLET_TRANSITION_TYPE_UNDER

datatype HdyNavigationDirection = HDY_NAVIGATION_DIRECTION_BACK | HDY_NAVIGATION_DIRECTION_FORWARD

text \<open>The first index of \<^verbatim>\<open>homogeneous\<close>: \<^verbatim>\<open>HDY_FOLD_UNFOLDED\<close> is \<^verbatim>\<open>FALSE\<close> and
  \<^verbatim>\<open>HDY_FOLD_FOLDED\<close> is \<^verbatim>\<open>TRUE\<close>.\<close>

datatype HdyFold = HDY_FOLD_UNFOLDED | HDY_FOLD_FOLDED

datatype GtkProgressState =
  GTK_PROGRESS_STATE_BEFORE | GTK_PROGRESS_STATE_DURING | GTK_PROGRESS_STATE_AFTER

record GtkAllocation =
  alloc_x :: int
  alloc_y :: int
  alloc_width :: int
  alloc_height :: int

record GtkRequisition =
  req_width :: int
  req_height :: int

text \<open>The part of a child widget's toolkit state that the leaflet reads or writes.\<close>

record GtkWidget =
  w_visible :: bool
  w_child_visible :: bool
  w_parent :: bool
  w_pref_min :: GtkRequisition
  w_pref_nat :: GtkRequisition
  w_hexpand :: bool
  w_vexpand :: bool
  w_allocation :: GtkAllocation

text \<open>\<^verbatim>\<open>struct _HdyLeafletChildInfo\<close>.\<close>

record HdyLeafletChildInfo =
  widget :: "nat option"
  name :: "string option"
  allow_visible :: bool
  alloc :: GtkAllocation
  min_req :: GtkRequisition
  nat_req :: GtkRequisition
  visible :: bool

text \<open>
  The anonymous structures \<^verbatim>\<open>mode_transition\<close> and \<^verbatim>\<open>child_transition\<close> of
  \<^verbatim>\<open>HdyLeafletPrivate\<close>; fields of the same name in both carry the prefix \<open>mt_\<close> or
  \<open>ct_\<close>. Modelled from the spec: the time-based progress tracker
  (\<^verbatim>\<open>gtkprogresstrackerprivate.h\<close> is not among the sources) is represented by the state
  that \<^verbatim>\<open>gtk_progress_tracker_get_state\<close> reports.
\<close>

record mode_transition_t =
  mt_duration :: nat
  current_pos :: real
  source_pos :: real
  target_pos :: real
  start_surface_allocation :: GtkAllocation
  end_surface_allocation :: GtkAllocation
  mt_tick_id :: nat
  mt_tracker :: GtkProgressState

record child_transition_t =
  ct_duration :: nat
  progress :: real
  ct_start_progress :: real
  ct_end_progress :: real
  is_gesture_active :: bool
  is_cancelled :: bool
  ct_tick_id :: nat
  ct_tracker :: GtkProgressState
  first_frame_skipped :: bool
  last_visible_widget_width :: int
  last_visible_widget_height :: int
  interpolate_size :: bool
  can_swipe_back :: bool
  can_swipe_forward :: bool
  active_type :: HdyLeafletTransitionType
  active_direction :: GtkPanDirection

text \<open>
  The toolkit's state of the leaflet widget itself: the per-widget store, the flags the
  source queries through \<^verbatim>\<open>gtk_widget_get_mapped\<close>, \<^verbatim>\<open>gtk_widget_get_realized\<close>,
  \<^verbatim>\<open>gtk_widget_is_visible\<close>, \<^verbatim>\<open>gtk_widget_in_destruction\<close>,
  \<^verbatim>\<open>gtk_widget_get_direction\<close> and \<^verbatim>\<open>hdy_get_enable_animations\<close>, the supply of
  tick callback identifiers, the allocation that \<^verbatim>\<open>gtk_widget_get_allocation\<close> returns,
  and whether a redraw, a resize or an allocation has been queued. The flag
  \<open>widget_visible\<close> is \<^verbatim>\<open>gtk_widget_get_visible\<close> of the leaflet, \<open>is_visible\<close> is
  \<^verbatim>\<open>gtk_widget_is_visible\<close>, which also asks the ancestors. The last field belongs to
  the platform: it is the \<^verbatim>\<open>gint\<close> that the cast of a double that is not a number
  yields, which C does not determine (\<^verbatim>\<open>INT_MIN\<close> on x86-64).
\<close>

record GtkState =
  widgets :: "nat \<Rightarrow> GtkWidget"
  mapped :: bool
  realized :: bool
  widget_visible :: bool
  is_visible :: bool
  in_destruction :: bool
  direction :: GtkTextDirection
  enable_animations :: bool
  tick_counter :: nat
  self_allocation :: GtkAllocation
  draw_queued :: bool
  resize_queued :: bool
  allocate_queued :: bool
  nan_as_gint :: int

text \<open>The geometry of a \<^verbatim>\<open>GdkWindow\<close>.\<close>

record GdkWindow =
  win_x :: int
  win_y :: int
  win_width :: int
  win_height :: int

text \<open>
  \<^verbatim>\<open>HdyLeafletPrivate\<close>, with the store of child infos and the toolkit state. The array
  \<^verbatim>\<open>homogeneous[fold][orientation]\<close> is indexed by the fold and the orientation.
\<close>

record HdyLeaflet =
  children :: "nat list"
  children_reversed :: "nat list"
  visible_child :: "nat option"
  last_visible_child :: "nat option"
  folded :: bool
  homogeneous :: "HdyFold \<Rightarrow> GtkOrientation \<Rightarrow> bool"
  orientation :: GtkOrientation
  transition_type :: HdyLeafletTransitionType
  mode_transition :: mode_transition_t
  child_transition :: child_transition_t
  bin_window :: "GdkWindow option"
  view_window :: "GdkWindow option"
  move_bin_window_request :: bool
  infos :: "nat \<Rightarrow> HdyLeafletChildInfo"
  gtk :: GtkState


subsection \<open>Toolkit calls\<close>

definition gtk_widget_get_visible :: "HdyLeaflet \<Rightarrow> nat option \<Rightarrow> bool" where
  "gtk_widget_get_visible s w =
     (case w of None \<Rightarrow> False | Some p \<Rightarrow> w_visible (widgets (gtk s) p))"

definition gtk_widget_get_child_visible :: "HdyLeaflet \<Rightarrow> nat option \<Rightarrow> bool" where
  "gtk_widget_get_child_visible s w =
     (case w of None \<Rightarrow> False | Some p \<Rightarrow> w_child_visible (widgets (gtk s) p))"

definition gtk_widget_set_child_visible :: "nat option \<Rightarrow> bool \<Rightarrow> HdyLeaflet \<Rightarrow> HdyLeaflet" where
  "gtk_widget_set_child_visible w b s =
     (case w of
        None \<Rightarrow> s
      | Some p \<Rightarrow>
          s\<lparr>gtk := (gtk s)\<lparr>widgets := (widgets (gtk s))(p := (widgets (gtk s) p)\<lparr>w_child_visible := b\<rparr>)\<rparr>\<rparr>)"

definition gtk_widget_compute_expand :: "HdyLeaflet \<Rightarrow> nat option \<Rightarrow> GtkOrientation \<Rightarrow> bool" where
  "gtk_widget_compute_expand s w ori =
     (case w of
        None \<Rightarrow> False
      | Some p \<Rightarrow>
          (if ori = GTK_ORIENTATION_HORIZONTAL then w_hexpand (widgets (gtk s) p)
           else w_vexpand (widgets (gtk s) p)))"

definition gtk_widget_size_allocate :: "nat option \<Rightarrow> GtkAllocation \<Rightarrow> HdyLeaflet \<Rightarrow> HdyLeaflet" where
  "gtk_widget_size_allocate w a s =
     (case w of
        None \<Rightarrow> s
      | Some p \<Rightarrow>
          s\<lparr>gtk := (gtk s)\<lparr>widgets := (widgets (gtk s))(p := (widgets (gtk s) p)\<lparr>w_allocation := a\<rparr>)\<rparr>\<rparr>)"

definition gtk_widget_show :: "nat option \<Rightarrow> HdyLeaflet \<Rightarrow> HdyLeaflet" where
  "gtk_widget_show w s =
     (case w of
        None \<Rightarrow> s
      | Some p \<Rightarrow>
          s\<lparr>gtk := (gtk s)\<lparr>widgets := (widgets (gtk s))(p := (widgets (gtk s) p)\<lparr>w_visible := True\<rparr>)\<rparr>\<rparr>)"

definition gtk_widget_set_parent :: "nat \<Rightarrow> bool \<Rightarrow> HdyLeaflet \<Rightarrow> HdyLeaflet" where
  "gtk_widget_set_parent p b s =
     s\<lparr>gtk := (gtk s)\<lparr>widgets := (widgets (gtk s))(p := (widgets (gtk s) p)\<lparr>w_parent := b\<rparr>)\<rparr>\<rparr>"

definition gtk_widget_queue_draw :: "HdyLeaflet \<Rightarrow> HdyLeaflet" where
  "gtk_widget_queue_draw s = s\<lparr>gtk := (gtk s)\<lparr>draw_queued := True\<rparr>\<rparr>"

definition gtk_widget_queue_resize :: "HdyLeaflet \<Rightarrow> HdyLeaflet" where
  "gtk_widget_queue_resize s = s\<lparr>gtk := (gtk s)\<lparr>resize_queued := True\<rparr>\<rparr>"

definition gtk_widget_queue_allocate :: "HdyLeaflet \<Rightarrow> HdyLeaflet" where
  "gtk_widget_queue_allocate s = s\<lparr>gtk := (gtk s)\<lparr>allocate_queued := True\<rparr>\<rparr>"

text \<open>\<^verbatim>\<open>gtk_widget_add_tick_callback\<close> hands out a fresh identifier, never 0.\<close>

definition gtk_widget_add_tick_callback :: "HdyLeaflet \<Rightarrow> nat \<times> HdyLeaflet" where
  "gtk_widget_add_tick_callback s =
     (Suc (tick_counter (gtk s)), s\<lparr>gtk := (gtk s)\<lparr>tick_counter := Suc (tick_counter (gtk s))\<rparr>\<rparr>)"

text \<open>The cast \<^verbatim>\<open>(gint)\<close> of a double.\<close>

definition gint_of_gdouble :: "real \<Rightarrow> int" where
  "gint_of_gdouble r = (if r < 0 then - \<lfloor>- r\<rfloor> else \<lfloor>r\<rfloor>)"

subsection \<open>Child lookup\<close>

definition find_child_info_for_widget :: "HdyLeaflet \<Rightarrow> nat option \<Rightarrow> nat option" where
  "find_child_info_for_widget s w = find (\<lambda>c. widget (infos s c) = w) (children s)"

definition get_directed_children :: "HdyLeaflet \<Rightarrow> nat list" where
  "get_directed_children s =
     (if orientation s = GTK_ORIENTATION_HORIZONTAL \<and> direction (gtk s) = GTK_TEXT_DIR_RTL
      then children_reversed s else children s)"

definition is_direction_dependent_child_transition :: "HdyLeafletTransitionType \<Rightarrow> bool" where
  "is_direction_dependent_child_transition t =
     (t = HDY_LEAFLET_TRANSITION_TYPE_SLIDE \<or>
      t = HDY_LEAFLET_TRANSITION_TYPE_OVER \<or>
      t = HDY_LEAFLET_TRANSITION_TYPE_UNDER)"

definition get_pan_direction :: "HdyLeaflet \<Rightarrow> bool \<Rightarrow> GtkPanDirection" where
  "get_pan_direction s new_child_first =
     (if orientation s = GTK_ORIENTATION_HORIZONTAL then
        (if direction (gtk s) = GTK_TEXT_DIR_RTL
         then (if new_child_first then GTK_PAN_DIRECTION_LEFT else GTK_PAN_DIRECTION_RIGHT)
         else (if new_child_first then GTK_PAN_DIRECTION_RIGHT else GTK_PAN_DIRECTION_LEFT))
      else (if new_child_first then GTK_PAN_DIRECTION_DOWN else GTK_PAN_DIRECTION_UP))"

definition hdy_leaflet_get_visible_child :: "HdyLeaflet \<Rightarrow> nat option" where
  "hdy_leaflet_get_visible_child s =
     (case visible_child s of None \<Rightarrow> None | Some v \<Rightarrow> widget (infos s v))"

subsection \<open>The child transition\<close>

text \<open>
  The bin window, which holds the children, follows the child transition.
  \<^verbatim>\<open>is_window_moving_child_transition\<close> tells the transitions that move it.
\<close>

definition is_window_moving_child_transition :: "HdyLeaflet \<Rightarrow> bool" where
  "is_window_moving_child_transition s =
     (let dir = active_direction (child_transition s);
          is_rtl = (direction (gtk s) = GTK_TEXT_DIR_RTL);
          left_or_right = (if is_rtl then GTK_PAN_DIRECTION_RIGHT else GTK_PAN_DIRECTION_LEFT);
          right_or_left = (if is_rtl then GTK_PAN_DIRECTION_LEFT else GTK_PAN_DIRECTION_RIGHT)
      in case active_type (child_transition s) of
           HDY_LEAFLET_TRANSITION_TYPE_NONE \<Rightarrow> False
         | HDY_LEAFLET_TRANSITION_TYPE_SLIDE \<Rightarrow> True
         | HDY_LEAFLET_TRANSITION_TYPE_OVER \<Rightarrow> dir = GTK_PAN_DIRECTION_UP \<or> dir = left_or_right
         | HDY_LEAFLET_TRANSITION_TYPE_UNDER \<Rightarrow> dir = GTK_PAN_DIRECTION_DOWN \<or> dir = right_or_left)"

text \<open>
  \<^verbatim>\<open>get_bin_window_x\<close> and \<^verbatim>\<open>get_bin_window_y\<close>: where the progress of the child
  transition puts the bin window. The product of the \<^verbatim>\<open>gint\<close> and the double is stored
  in an \<^verbatim>\<open>int\<close>.
\<close>

definition get_bin_window_x :: "HdyLeaflet \<Rightarrow> GtkAllocation \<Rightarrow> int" where
  "get_bin_window_x s allocation =
     (if is_gesture_active (child_transition s) \<or>
         ct_tracker (child_transition s) \<noteq> GTK_PROGRESS_STATE_AFTER then
        (if active_direction (child_transition s) = GTK_PAN_DIRECTION_LEFT then
           gint_of_gdouble (real_of_int (alloc_width allocation) *
             (1 - progress (child_transition s)))
         else if active_direction (child_transition s) = GTK_PAN_DIRECTION_RIGHT then
           gint_of_gdouble (real_of_int (- alloc_width allocation) *
             (1 - progress (child_transition s)))
         else 0)
      else 0)"

definition get_bin_window_y :: "HdyLeaflet \<Rightarrow> GtkAllocation \<Rightarrow> int" where
  "get_bin_window_y s allocation =
     (if is_gesture_active (child_transition s) \<or>
         ct_tracker (child_transition s) \<noteq> GTK_PROGRESS_STATE_AFTER then
        (if active_direction (child_transition s) = GTK_PAN_DIRECTION_UP then
           gint_of_gdouble (real_of_int (alloc_height allocation) *
             (1 - progress (child_transition s)))
         else if active_direction (child_transition s) = GTK_PAN_DIRECTION_DOWN then
           gint_of_gdouble (real_of_int (- alloc_height allocation) *
             (1 - progress (child_transition s)))
         else 0)
      else 0)"

text \<open>
  \<^verbatim>\<open>move_resize_bin_window\<close>; the allocation \<^verbatim>\<open>NULL\<close> stands for the allocation of the
  leaflet.
\<close>

definition move_resize_bin_window :: "HdyLeaflet \<Rightarrow> GtkAllocation option \<Rightarrow> bool \<Rightarrow> HdyLeaflet" where
  "move_resize_bin_window s allocation resize =
     (case bin_window s of
        None \<Rightarrow> s
      | Some win \<Rightarrow>
          (let a = (case allocation of None \<Rightarrow> self_allocation (gtk s) | Some a' \<Rightarrow> a');
               move = (move_bin_window_request s \<or> is_window_moving_child_transition s)
           in s\<lparr>bin_window := Some
                  (if move \<and> resize then
                     \<lparr>win_x = get_bin_window_x s a, win_y = get_bin_window_y s a,
                      win_width = alloc_width a, win_height = alloc_height a\<rparr>
                   else if move then
                     win\<lparr>win_x := get_bin_window_x s a, win_y := get_bin_window_y s a\<rparr>
                   else if resize then
                     win\<lparr>win_width := alloc_width a, win_height := alloc_height a\<rparr>
                   else win),
                move_bin_window_request := False\<rparr>))"

text \<open>
  \<^verbatim>\<open>hdy_leaflet_child_progress_updated\<close> in two parts. The first, which every call runs,
  applies the progress: it queues a redraw, queues a resize unless the folded leaflet is
  homogeneous in both orientations, and moves the bin window to where the progress puts
  it.
\<close>

definition child_progress_apply :: "HdyLeaflet \<Rightarrow> HdyLeaflet" where
  "child_progress_apply s =
     move_resize_bin_window
       (if \<not> homogeneous s HDY_FOLD_FOLDED GTK_ORIENTATION_VERTICAL \<or>
           \<not> homogeneous s HDY_FOLD_FOLDED GTK_ORIENTATION_HORIZONTAL
        then gtk_widget_queue_resize (gtk_widget_queue_draw s)
        else gtk_widget_queue_draw s)
       None False"

text \<open>
  The second part runs once no gesture is active and the tracker is past its end: a
  cancelled transition gives the visible child back to the last visible child (the
  folded case reads \<^verbatim>\<open>priv->visible_child->widget\<close> without a test), a completed one
  hides the last visible child; then an allocation is queued.
\<close>

definition child_progress_settle :: "HdyLeaflet \<Rightarrow> HdyLeaflet option" where
  "child_progress_settle s =
     (if is_cancelled (child_transition s) then
        (case last_visible_child s of
           None \<Rightarrow> Some (gtk_widget_queue_allocate s)
         | Some l \<Rightarrow>
             (if folded s then
                (case visible_child s of
                   None \<Rightarrow> None
                 | Some v \<Rightarrow>
                     Some (gtk_widget_queue_allocate
                            ((gtk_widget_set_child_visible (widget (infos s v)) False
                                (gtk_widget_set_child_visible (widget (infos s l)) True s))
                              \<lparr>visible_child := Some l, last_visible_child := None\<rparr>)))
              else Some (gtk_widget_queue_allocate
                           (s\<lparr>visible_child := Some l, last_visible_child := None\<rparr>))))
      else
        (case last_visible_child s of
           None \<Rightarrow> Some (gtk_widget_queue_allocate s)
         | Some l \<Rightarrow>
             Some (gtk_widget_queue_allocate
                    ((if folded s then gtk_widget_set_child_visible (widget (infos s l)) False s
                      else s)\<lparr>last_visible_child := None\<rparr>))))"

definition hdy_leaflet_child_progress_updated :: "HdyLeaflet \<Rightarrow> HdyLeaflet option" where
  "hdy_leaflet_child_progress_updated s =
     (if \<not> is_gesture_active (child_transition s) \<and>
         ct_tracker (child_transition s) = GTK_PROGRESS_STATE_AFTER
      then child_progress_settle (child_progress_apply s)
      else Some (child_progress_apply s))"

definition hdy_leaflet_schedule_child_ticks :: "HdyLeaflet \<Rightarrow> HdyLeaflet" where
  "hdy_leaflet_schedule_child_ticks s =
     (if ct_tick_id (child_transition s) = 0 then
        (case gtk_widget_add_tick_callback s of
           (i, s') \<Rightarrow> s'\<lparr>child_transition := (child_transition s')\<lparr>ct_tick_id := i\<rparr>\<rparr>)
      else s)"

definition hdy_leaflet_unschedule_child_ticks :: "HdyLeaflet \<Rightarrow> HdyLeaflet" where
  "hdy_leaflet_unschedule_child_ticks s =
     (if ct_tick_id (child_transition s) \<noteq> 0 then
        s\<lparr>child_transition := (child_transition s)\<lparr>ct_tick_id := 0\<rparr>\<rparr>
      else s)"

text \<open>
  A frame of the frame clock, as the tick callbacks see it: the state the tracker reports
  after \<^verbatim>\<open>gtk_progress_tracker_advance_frame\<close>, and the position that the interpolation
  (\<^verbatim>\<open>hdy_lerp\<close> of the eased progress, in \<^verbatim>\<open>hdy-animation-private.h\<close>, not among the
  sources) yields for it. A tracker that is past its end stays there.
\<close>

record frame =
  fr_state :: GtkProgressState
  fr_value :: real

definition gtk_progress_tracker_advance_frame :: "GtkProgressState \<Rightarrow> frame \<Rightarrow> GtkProgressState" where
  "gtk_progress_tracker_advance_frame t f =
     (if t = GTK_PROGRESS_STATE_AFTER then GTK_PROGRESS_STATE_AFTER else fr_state f)"

text \<open>
  \<^verbatim>\<open>hdy_leaflet_child_transition_cb\<close>; the result says whether the callback stays
  installed (\<^verbatim>\<open>G_SOURCE_CONTINUE\<close>).
\<close>

definition hdy_leaflet_child_transition_cb :: "HdyLeaflet \<Rightarrow> frame \<Rightarrow> (bool \<times> HdyLeaflet) option" where
  "hdy_leaflet_child_transition_cb s f =
     (let s1 = (if first_frame_skipped (child_transition s) then
                  s\<lparr>child_transition := (child_transition s)
                      \<lparr>ct_tracker := gtk_progress_tracker_advance_frame (ct_tracker (child_transition s)) f,
                       progress := fr_value f\<rparr>\<rparr>
                else s\<lparr>child_transition := (child_transition s)\<lparr>first_frame_skipped := True\<rparr>\<rparr>);
          s2 = (if \<not> mapped (gtk s1) then
                  s1\<lparr>child_transition := (child_transition s1)\<lparr>ct_tracker := GTK_PROGRESS_STATE_AFTER\<rparr>\<rparr>
                else s1)
      in case hdy_leaflet_child_progress_updated s2 of
           None \<Rightarrow> None
         | Some s3 \<Rightarrow>
             (if ct_tracker (child_transition s3) = GTK_PROGRESS_STATE_AFTER then
                Some (False, s3\<lparr>child_transition := (child_transition s3)\<lparr>ct_tick_id := 0\<rparr>\<rparr>)
              else Some (True, s3)))"

definition hdy_leaflet_stop_child_transition :: "HdyLeaflet \<Rightarrow> HdyLeaflet" where
  "hdy_leaflet_stop_child_transition s =
     (let s1 = hdy_leaflet_unschedule_child_ticks s;
          s2 = s1\<lparr>child_transition := (child_transition s1)
                    \<lparr>active_type := HDY_LEAFLET_TRANSITION_TYPE_NONE,
                     ct_tracker := GTK_PROGRESS_STATE_AFTER\<rparr>\<rparr>
      in (case last_visible_child s2 of
            None \<Rightarrow> s2
          | Some l \<Rightarrow>
              (gtk_widget_set_child_visible (widget (infos s2 l)) False s2)\<lparr>last_visible_child := None\<rparr>)
         \<lparr>move_bin_window_request := True\<rparr>)"

definition hdy_leaflet_start_child_transition ::
  "HdyLeaflet \<Rightarrow> HdyLeafletTransitionType \<Rightarrow> nat \<Rightarrow> GtkPanDirection \<Rightarrow> HdyLeaflet option" where
  "hdy_leaflet_start_child_transition s ttype tduration tdirection =
     hdy_leaflet_child_progress_updated
       (if mapped (gtk s) \<and>
           (enable_animations (gtk s) \<or> is_gesture_active (child_transition s)) \<and>
           ttype \<noteq> HDY_LEAFLET_TRANSITION_TYPE_NONE \<and>
           tduration \<noteq> 0 \<and>
           last_visible_child s \<noteq> None \<and>
           mt_tick_id (mode_transition s) = 0
        then
          (let s1 = s\<lparr>child_transition := (child_transition s)
                        \<lparr>active_type := ttype,
                         active_direction := tdirection,
                         first_frame_skipped := False,
                         ct_start_progress := 0,
                         ct_end_progress := 1,
                         progress := 0,
                         is_cancelled := False\<rparr>\<rparr>
           in if \<not> is_gesture_active (child_transition s1) then
                (let s2 = hdy_leaflet_schedule_child_ticks s1
                 in s2\<lparr>child_transition := (child_transition s2)\<lparr>ct_tracker := GTK_PROGRESS_STATE_DURING\<rparr>\<rparr>)
              else s1)
        else
          (let s1 = hdy_leaflet_unschedule_child_ticks s
           in s1\<lparr>child_transition := (child_transition s1)
                    \<lparr>active_type := HDY_LEAFLET_TRANSITION_TYPE_NONE,
                     ct_tracker := GTK_PROGRESS_STATE_AFTER\<rparr>\<rparr>))"

definition hdy_leaflet_get_child_transition_running :: "HdyLeaflet \<Rightarrow> bool" where
  "hdy_leaflet_get_child_transition_running s =
     (ct_tick_id (child_transition s) \<noteq> 0 \<or> is_gesture_active (child_transition s))"


subsection \<open>Changing the visible child\<close>

text \<open>
  The loop of \<^verbatim>\<open>set_visible_child_info\<close> that finds out whether the new child comes
  before the last visible child in \<^verbatim>\<open>priv->children\<close>.
\<close>

primrec new_child_first :: "nat option \<Rightarrow> nat option \<Rightarrow> nat list \<Rightarrow> bool" where
  "new_child_first new_c last_c [] = False"
| "new_child_first new_c last_c (c # cs) =
     (if new_c = Some c then True
      else if last_c = Some c then False
      else new_child_first new_c last_c cs)"

text \<open>
  The middle of \<^verbatim>\<open>set_visible_child_info\<close>, from the test of
  \<^verbatim>\<open>priv->last_visible_child\<close> to the call that makes the widget of the new child
  child-visible: the last visible child is hidden and forgotten; the visible child
  becomes the last visible child when the leaflet is visible, and is hidden when it is
  not; the new child becomes the visible child.
\<close>

definition switch_visible_child :: "HdyLeaflet \<Rightarrow> nat option \<Rightarrow> HdyLeaflet" where
  "switch_visible_child s new_c =
     (let s1 = (case last_visible_child s of
                  None \<Rightarrow> s
                | Some l \<Rightarrow> gtk_widget_set_child_visible (widget (infos s l)) False s)
               \<lparr>last_visible_child := None\<rparr>;
          s2 = (case visible_child s1 of
                  None \<Rightarrow> s1
                | Some v \<Rightarrow>
                    (case widget (infos s1 v) of
                       None \<Rightarrow> s1
                     | Some p \<Rightarrow>
                         (if is_visible (gtk s1) then
                            s1\<lparr>last_visible_child := Some v,
                               child_transition := (child_transition s1)
                                 \<lparr>last_visible_widget_width :=
                                    alloc_width (w_allocation (widgets (gtk s1) p)),
                                  last_visible_widget_height :=
                                    alloc_height (w_allocation (widgets (gtk s1) p))\<rparr>\<rparr>
                          else gtk_widget_set_child_visible (Some p) False s1)));
          s3 = s2\<lparr>visible_child := new_c\<rparr>
      in case new_c of
           None \<Rightarrow> s3
         | Some c \<Rightarrow> gtk_widget_set_child_visible (widget (infos s3 c)) True s3)"

text \<open>
  \<^verbatim>\<open>set_visible_child_info\<close>. The signal \<^verbatim>\<open>switch-child\<close> has no handler inside the
  leaflet; what remains of its emission is the read of \<^verbatim>\<open>new_visible_child->widget\<close>,
  which crashes on \<^verbatim>\<open>NULL\<close>.
\<close>

definition set_visible_child_info ::
  "HdyLeaflet \<Rightarrow> nat option \<Rightarrow> HdyLeafletTransitionType \<Rightarrow> nat \<Rightarrow> bool \<Rightarrow> HdyLeaflet option" where
  "set_visible_child_info s new_visible_child ttype tduration emit_switch_child =
     (if in_destruction (gtk s) then Some s
      else
        (let new_c = (case new_visible_child of
                        None \<Rightarrow> find (\<lambda>c. gtk_widget_get_visible s (widget (infos s c))) (children s)
                      | Some c \<Rightarrow> Some c)
         in if new_c = visible_child s then Some s
            else
              (let s4 = switch_visible_child s new_c;
                   ttype' = (if (new_c = None \<or> last_visible_child s4 = None) \<and>
                                is_direction_dependent_child_transition ttype
                             then HDY_LEAFLET_TRANSITION_TYPE_NONE else ttype);
                   tdirection = (if \<not> ((new_c = None \<or> last_visible_child s4 = None) \<and>
                                         is_direction_dependent_child_transition ttype) \<and>
                                    is_direction_dependent_child_transition ttype
                                 then get_pan_direction s4
                                        (new_child_first new_c (last_visible_child s4) (children s4))
                                 else GTK_PAN_DIRECTION_LEFT)
               in case (if folded s4
                        then hdy_leaflet_start_child_transition
                               (if homogeneous s4 HDY_FOLD_FOLDED GTK_ORIENTATION_HORIZONTAL \<and>
                                   homogeneous s4 HDY_FOLD_FOLDED GTK_ORIENTATION_VERTICAL
                                then gtk_widget_queue_allocate s4
                                else gtk_widget_queue_resize s4)
                               ttype' tduration tdirection
                        else Some s4) of
                    None \<Rightarrow> None
                  | Some s5 \<Rightarrow>
                      (if emit_switch_child then
                         (case new_c of None \<Rightarrow> None | Some c \<Rightarrow> Some s5)
                       else Some s5))))"

definition hdy_leaflet_set_visible_child :: "HdyLeaflet \<Rightarrow> nat \<Rightarrow> HdyLeaflet option" where
  "hdy_leaflet_set_visible_child s w =
     (case find_child_info_for_widget s (Some w) of
        None \<Rightarrow> Some s
      | Some child_info \<Rightarrow>
          set_visible_child_info s (Some child_info) (transition_type s)
            (ct_duration (child_transition s)) True)"

subsection \<open>The mode transition\<close>

definition hdy_leaflet_set_position :: "HdyLeaflet \<Rightarrow> real \<Rightarrow> HdyLeaflet" where
  "hdy_leaflet_set_position s pos =
     (let s1 = s\<lparr>mode_transition := (mode_transition s)\<lparr>current_pos := pos\<rparr>\<rparr>;
          new_visible = (current_pos (mode_transition s1) \<noteq> 0 \<or> target_pos (mode_transition s1) \<noteq> 0);
          child = hdy_leaflet_get_visible_child s1
      in gtk_widget_queue_resize
           (if child \<noteq> None \<and> new_visible \<noteq> gtk_widget_get_child_visible s1 child
            then gtk_widget_set_child_visible child new_visible s1
            else s1))"

text \<open>
  \<^verbatim>\<open>hdy_leaflet_mode_transition_cb\<close>; the frame carries the tracker's state and the
  eased progress \<^verbatim>\<open>ease\<close>.
\<close>

definition hdy_leaflet_mode_transition_cb :: "HdyLeaflet \<Rightarrow> frame \<Rightarrow> bool \<times> HdyLeaflet" where
  "hdy_leaflet_mode_transition_cb s f =
     (let s1 = s\<lparr>mode_transition := (mode_transition s)
                   \<lparr>mt_tracker := gtk_progress_tracker_advance_frame (mt_tracker (mode_transition s)) f\<rparr>\<rparr>;
          s2 = hdy_leaflet_set_position s1
                 (source_pos (mode_transition s1) +
                  fr_value f * (target_pos (mode_transition s1) - source_pos (mode_transition s1)))
      in if mt_tracker (mode_transition s2) = GTK_PROGRESS_STATE_AFTER
         then (False, s2\<lparr>mode_transition := (mode_transition s2)\<lparr>mt_tick_id := 0\<rparr>\<rparr>)
         else (True, s2))"

definition hdy_leaflet_start_mode_transition :: "HdyLeaflet \<Rightarrow> real \<Rightarrow> HdyLeaflet" where
  "hdy_leaflet_start_mode_transition s target =
     (if target_pos (mode_transition s) = target then s
      else
        (let s1 = s\<lparr>mode_transition := (mode_transition s)\<lparr>target_pos := target\<rparr>\<rparr>;
             s2 = hdy_leaflet_stop_child_transition s1
         in if mapped (gtk s2) \<and>
               mt_duration (mode_transition s2) \<noteq> 0 \<and>
               transition_type s2 \<noteq> HDY_LEAFLET_TRANSITION_TYPE_NONE \<and>
               enable_animations (gtk s2)
            then
              (let s3 = s2\<lparr>mode_transition := (mode_transition s2)
                            \<lparr>source_pos := current_pos (mode_transition s2)\<rparr>\<rparr>;
                   s4 = (if mt_tick_id (mode_transition s3) = 0 then
                           (case gtk_widget_add_tick_callback s3 of
                              (i, s') \<Rightarrow> s'\<lparr>mode_transition := (mode_transition s')\<lparr>mt_tick_id := i\<rparr>\<rparr>)
                         else s3)
               in s4\<lparr>mode_transition := (mode_transition s4)\<lparr>mt_tracker := GTK_PROGRESS_STATE_DURING\<rparr>\<rparr>)
            else hdy_leaflet_set_position s2 target))"

definition hdy_leaflet_get_folded :: "HdyLeaflet \<Rightarrow> bool" where
  "hdy_leaflet_get_folded s = folded s"

definition hdy_leaflet_set_folded :: "HdyLeaflet \<Rightarrow> bool \<Rightarrow> HdyLeaflet" where
  "hdy_leaflet_set_folded s fd =
     (if folded s = fd then s
      else
        (let s1 = s\<lparr>folded := fd\<rparr>
         in if fd then hdy_leaflet_start_mode_transition s1 0.0
            else hdy_leaflet_start_mode_transition s1 1.0))"

subsection \<open>Navigation\<close>

text \<open>
  The \<^verbatim>\<open>do ... while\<close> loop of \<^verbatim>\<open>find_swipeable_child\<close> over the nodes that follow the
  node of the visible child in the chosen direction. The variable \<^verbatim>\<open>child\<close> keeps the
  data of the last node visited when the loop runs off the list.
\<close>

primrec swipeable_scan :: "HdyLeaflet \<Rightarrow> nat list \<Rightarrow> nat option \<Rightarrow> nat option" where
  "swipeable_scan s [] child = child"
| "swipeable_scan s (c # cs) child =
     (if \<not> allow_visible (infos s c) then swipeable_scan s cs (Some c) else Some c)"

text \<open>
  \<^verbatim>\<open>g_list_find\<close> yields \<^verbatim>\<open>NULL\<close> when the visible child is not in the list, and the
  loop then reads \<^verbatim>\<open>children->prev\<close> or \<^verbatim>\<open>children->next\<close> of \<^verbatim>\<open>NULL\<close>.
\<close>

definition find_swipeable_child :: "HdyLeaflet \<Rightarrow> HdyNavigationDirection \<Rightarrow> nat option option" where
  "find_swipeable_child s dir =
     (case visible_child s of
        None \<Rightarrow> None
      | Some v \<Rightarrow>
          (if v \<notin> set (children s) then None
           else Some (swipeable_scan s
                  (if dir = HDY_NAVIGATION_DIRECTION_BACK
                   then rev (takeWhile (\<lambda>c. c \<noteq> v) (children s))
                   else tl (dropWhile (\<lambda>c. c \<noteq> v) (children s)))
                  None)))"

definition can_swipe_in_direction :: "HdyLeaflet \<Rightarrow> HdyNavigationDirection \<Rightarrow> bool" where
  "can_swipe_in_direction s dir =
     (case dir of
        HDY_NAVIGATION_DIRECTION_BACK \<Rightarrow> can_swipe_back (child_transition s)
      | HDY_NAVIGATION_DIRECTION_FORWARD \<Rightarrow> can_swipe_forward (child_transition s))"

definition hdy_leaflet_navigate :: "HdyLeaflet \<Rightarrow> HdyNavigationDirection \<Rightarrow> (bool \<times> HdyLeaflet) option" where
  "hdy_leaflet_navigate s dir =
     (if \<not> can_swipe_in_direction s dir then Some (False, s)
      else
        (case find_swipeable_child s dir of
           None \<Rightarrow> None
         | Some None \<Rightarrow> Some (False, s)
         | Some (Some child) \<Rightarrow>
             (case set_visible_child_info s (Some child) (transition_type s)
                     (ct_duration (child_transition s)) True of
                None \<Rightarrow> None
              | Some s' \<Rightarrow> Some (True, s'))))"

subsection \<open>The swipe entry points\<close>

definition hdy_leaflet_begin_swipe :: "HdyLeaflet \<Rightarrow> HdyNavigationDirection \<Rightarrow> bool \<Rightarrow> HdyLeaflet option" where
  "hdy_leaflet_begin_swipe s dir direct =
     (if ct_tick_id (child_transition s) > 0 then
        Some (s\<lparr>child_transition := (child_transition s)
                  \<lparr>ct_tick_id := 0, is_gesture_active := True, is_cancelled := False\<rparr>\<rparr>)
      else
        (case (if (can_swipe_in_direction s dir \<or> \<not> direct) \<and> folded s
               then find_swipeable_child s dir else Some None) of
           None \<Rightarrow> None
         | Some None \<Rightarrow> Some s
         | Some (Some child) \<Rightarrow>
             set_visible_child_info
               (s\<lparr>child_transition := (child_transition s)\<lparr>is_gesture_active := True\<rparr>\<rparr>)
               (Some child) (transition_type s) (ct_duration (child_transition s)) False))"

definition hdy_leaflet_update_swipe :: "HdyLeaflet \<Rightarrow> real \<Rightarrow> HdyLeaflet option" where
  "hdy_leaflet_update_swipe s val =
     hdy_leaflet_child_progress_updated
       (s\<lparr>child_transition := (child_transition s)\<lparr>progress := \<bar>val\<bar>\<rparr>\<rparr>)"

definition hdy_leaflet_end_swipe :: "HdyLeaflet \<Rightarrow> int \<Rightarrow> real \<Rightarrow> HdyLeaflet option" where
  "hdy_leaflet_end_swipe s duration to =
     (if \<not> is_gesture_active (child_transition s) then Some s
      else
        (let s1 = s\<lparr>child_transition := (child_transition s)
                      \<lparr>ct_start_progress := progress (child_transition s),
                       ct_end_progress := \<bar>to\<bar>,
                       is_cancelled := (to = 0),
                       first_frame_skipped := True\<rparr>\<rparr>;
             s2 = hdy_leaflet_schedule_child_ticks s1;
             s3 = (if enable_animations (gtk s2) \<and> duration \<noteq> 0 \<and>
                      transition_type s2 \<noteq> HDY_LEAFLET_TRANSITION_TYPE_NONE
                   then s2\<lparr>child_transition := (child_transition s2)
                             \<lparr>ct_tracker := GTK_PROGRESS_STATE_DURING\<rparr>\<rparr>
                   else s2\<lparr>child_transition := (child_transition s2)
                             \<lparr>progress := ct_end_progress (child_transition s2),
                              ct_tracker := GTK_PROGRESS_STATE_AFTER\<rparr>\<rparr>);
             s4 = s3\<lparr>child_transition := (child_transition s3)\<lparr>is_gesture_active := False\<rparr>\<rparr>
         in case hdy_leaflet_child_progress_updated s4 of
              None \<Rightarrow> None
            | Some s5 \<Rightarrow> Some (gtk_widget_queue_draw s5)))"


subsection \<open>Size allocation: the folded layout\<close>

definition nat_size_of :: "HdyLeaflet \<Rightarrow> GtkOrientation \<Rightarrow> nat \<Rightarrow> int" where
  "nat_size_of s ori c =
     (if ori = GTK_ORIENTATION_HORIZONTAL then req_width (nat_req (infos s c))
      else req_height (nat_req (infos s c)))"

definition box_homogeneous_of :: "HdyLeaflet \<Rightarrow> GtkOrientation \<Rightarrow> bool" where
  "box_homogeneous_of s ori =
     ((homogeneous s HDY_FOLD_UNFOLDED GTK_ORIENTATION_HORIZONTAL \<and> ori = GTK_ORIENTATION_HORIZONTAL) \<or>
      (homogeneous s HDY_FOLD_UNFOLDED GTK_ORIENTATION_VERTICAL \<and> ori = GTK_ORIENTATION_VERTICAL))"

text \<open>The first loop of \<^verbatim>\<open>hdy_leaflet_size_allocate_folded\<close>, one step.\<close>

definition folded_hide_child :: "nat \<Rightarrow> nat \<Rightarrow> HdyLeaflet \<Rightarrow> HdyLeaflet" where
  "folded_hide_child v c s =
     (if widget (infos s c) = None then s
      else if widget (infos s c) = widget (infos s v) then s
      else if (case last_visible_child s of
                 None \<Rightarrow> False
               | Some l \<Rightarrow> widget (infos s c) = widget (infos s l)) then s
      else gtk_widget_set_child_visible (widget (infos s c)) False s)"

text \<open>The loop of the case \<^verbatim>\<open>HDY_LEAFLET_TRANSITION_TYPE_NONE\<close>, one step.\<close>

definition folded_place_child :: "nat \<Rightarrow> GtkAllocation \<Rightarrow> nat \<Rightarrow> HdyLeaflet \<Rightarrow> HdyLeaflet" where
  "folded_place_child v allocation c s =
     (if c \<noteq> v \<and> Some c \<noteq> last_visible_child s then
        s\<lparr>infos := (infos s)(c := (infos s c)\<lparr>visible := False\<rparr>)\<rparr>
      else
        s\<lparr>infos := (infos s)(c := (infos s c)
             \<lparr>alloc := \<lparr>alloc_x = 0, alloc_y = 0,
                        alloc_width = alloc_width allocation,
                        alloc_height = alloc_height allocation\<rparr>,
              visible := True\<rparr>)\<rparr>)"

text \<open>The loops "Allocate starting children" and "Allocate ending children".\<close>

primrec folded_start_loop ::
  "GtkOrientation \<Rightarrow> bool \<Rightarrow> int \<Rightarrow> GtkAllocation \<Rightarrow> nat \<Rightarrow> nat list \<Rightarrow> int \<Rightarrow> HdyLeaflet \<Rightarrow> HdyLeaflet" where
  "folded_start_loop ori bh max_child_size allocation v [] current_pad s = s"
| "folded_start_loop ori bh max_child_size allocation v (c # cs) current_pad s =
     (if c = v then s
      else
        (let sz = (if bh then max_child_size else nat_size_of s ori c);
             a = (if ori = GTK_ORIENTATION_HORIZONTAL then
                    \<lparr>alloc_x = - current_pad, alloc_y = 0,
                     alloc_width = sz, alloc_height = alloc_height allocation\<rparr>
                  else
                    \<lparr>alloc_x = 0, alloc_y = - current_pad,
                     alloc_width = alloc_width allocation, alloc_height = sz\<rparr>);
             vis = (if ori = GTK_ORIENTATION_HORIZONTAL then alloc_x a + alloc_width a > 0
                    else alloc_y a + alloc_height a > 0)
         in folded_start_loop ori bh max_child_size allocation v cs (current_pad - sz)
              (s\<lparr>infos := (infos s)(c := (infos s c)\<lparr>alloc := a, visible := vis\<rparr>)\<rparr>)))"

primrec folded_end_loop ::
  "GtkOrientation \<Rightarrow> bool \<Rightarrow> int \<Rightarrow> GtkAllocation \<Rightarrow> nat \<Rightarrow> nat list \<Rightarrow> int \<Rightarrow> HdyLeaflet \<Rightarrow> HdyLeaflet" where
  "folded_end_loop ori bh max_child_size allocation v [] current_pad s = s"
| "folded_end_loop ori bh max_child_size allocation v (c # cs) current_pad s =
     (if c = v then s
      else
        (let pad = current_pad -
                     (if ori = GTK_ORIENTATION_HORIZONTAL then alloc_width (alloc (infos s c))
                      else alloc_height (alloc (infos s c)));
             sz = (if bh then max_child_size else nat_size_of s ori c);
             a = (if ori = GTK_ORIENTATION_HORIZONTAL then
                    \<lparr>alloc_x = pad, alloc_y = 0,
                     alloc_width = sz, alloc_height = alloc_height allocation\<rparr>
                  else
                    \<lparr>alloc_x = 0, alloc_y = pad,
                     alloc_width = alloc_width allocation, alloc_height = sz\<rparr>);
             vis = (if ori = GTK_ORIENTATION_HORIZONTAL then alloc_x a < alloc_width allocation
                    else alloc_y a < alloc_height allocation)
         in folded_end_loop ori bh max_child_size allocation v cs pad
              (s\<lparr>infos := (infos s)(c := (infos s c)\<lparr>alloc := a, visible := vis\<rparr>)\<rparr>)))"

text \<open>
  The cases \<^verbatim>\<open>SLIDE\<close>, \<^verbatim>\<open>OVER\<close> and \<^verbatim>\<open>UNDER\<close> of the folded layout, which interpolate
  towards the unfolded one while the mode transition runs. The sizes that the source
  computes into local variables before it writes to the children are gathered in a record:
  \<^verbatim>\<open>visible_size\<close>, \<^verbatim>\<open>box_homogeneous\<close>, \<^verbatim>\<open>max_child_size\<close>,
  \<^verbatim>\<open>remaining_start_size\<close> and the two surface allocations. The quotient
  \<^verbatim>\<open>start_size / (start_size + end_size)\<close> of doubles is not a number when both sizes are
  0, and its cast to \<^verbatim>\<open>gint\<close> is then what the platform makes of it. The fields
  \<^verbatim>\<open>start_progress\<close>, \<^verbatim>\<open>end_progress\<close>, \<^verbatim>\<open>start_distance\<close>, \<^verbatim>\<open>end_distance\<close> and
  \<^verbatim>\<open>end_surface_clip\<close> are read by the drawing code only.
\<close>

record folded_sizes =
  visible_size :: int
  box_homogeneous :: bool
  max_child_size :: int
  remaining_start_size :: int
  start_allocation :: GtkAllocation
  end_allocation :: GtkAllocation

definition folded_moving_sizes ::
  "HdyLeaflet \<Rightarrow> GtkAllocation \<Rightarrow> nat \<Rightarrow> HdyLeafletTransitionType \<Rightarrow> folded_sizes" where
  "folded_moving_sizes s allocation v mtt =
     (let ori = orientation s;
          directed_children = get_directed_children s;
          extent = (if ori = GTK_ORIENTATION_HORIZONTAL then alloc_width allocation
                    else alloc_height allocation);
          vsize = min extent
             (max (nat_size_of s ori v)
                  (gint_of_gdouble (real_of_int extent * (1.0 - current_pos (mode_transition s)))));
          bh = box_homogeneous_of s ori;
          msize = (if bh then fold (\<lambda>c m. max m (nat_size_of s ori c)) directed_children 0
                   else 0);
          start_size = sum_list (map (\<lambda>c. if bh then msize else nat_size_of s ori c)
                                   (takeWhile (\<lambda>c. c \<noteq> v) directed_children));
          end_size = sum_list (map (\<lambda>c. if bh then msize else nat_size_of s ori c)
                                 (takeWhile (\<lambda>c. c \<noteq> v) (rev directed_children)));
          remaining_size = extent - vsize;
          rstart =
            (if start_size + end_size = 0 then nan_as_gint (gtk s)
             else gint_of_gdouble (real_of_int remaining_size *
                    (real_of_int start_size / real_of_int (start_size + end_size))));
          under_start =
            (if ori = GTK_ORIENTATION_HORIZONTAL then
               (mtt = HDY_LEAFLET_TRANSITION_TYPE_OVER \<and> direction (gtk s) = GTK_TEXT_DIR_LTR) \<or>
               (mtt = HDY_LEAFLET_TRANSITION_TYPE_UNDER \<and> direction (gtk s) = GTK_TEXT_DIR_RTL)
             else mtt = HDY_LEAFLET_TRANSITION_TYPE_OVER);
          under_end =
            ((mtt = HDY_LEAFLET_TRANSITION_TYPE_UNDER \<and> direction (gtk s) = GTK_TEXT_DIR_LTR) \<or>
             (mtt = HDY_LEAFLET_TRANSITION_TYPE_OVER \<and> direction (gtk s) = GTK_TEXT_DIR_RTL))
      in \<lparr>visible_size = vsize,
            box_homogeneous = bh,
            max_child_size = msize,
            remaining_start_size = rstart,
            start_allocation =
              (if ori = GTK_ORIENTATION_HORIZONTAL then
                 \<lparr>alloc_x = (if under_start then 0 else rstart - start_size),
                  alloc_y = 0,
                  alloc_width = (if under_start then remaining_size else start_size),
                  alloc_height = alloc_height allocation\<rparr>
               else
                 \<lparr>alloc_x = 0,
                  alloc_y = (if under_start then 0 else rstart - start_size),
                  alloc_width = alloc_width allocation,
                  alloc_height = (if under_start then remaining_size else start_size)\<rparr>),
            end_allocation =
              (if ori = GTK_ORIENTATION_HORIZONTAL then
                 \<lparr>alloc_x = (if under_end then alloc_width allocation - end_size
                              else rstart + vsize),
                  alloc_y = 0,
                  alloc_width = end_size,
                  alloc_height = alloc_height allocation\<rparr>
               else
                 \<lparr>alloc_x = 0,
                  alloc_y = rstart + vsize,
                  alloc_width = alloc_width allocation,
                  alloc_height = end_size\<rparr>)\<rparr>)"

text \<open>
  With the sizes at hand the source stores the two surface allocations, allocates the
  visible child, then the children before it and the children after it.
\<close>

definition size_allocate_folded_moving ::
  "HdyLeaflet \<Rightarrow> GtkAllocation \<Rightarrow> nat \<Rightarrow> HdyLeafletTransitionType \<Rightarrow> HdyLeaflet" where
  "size_allocate_folded_moving s allocation v mtt =
     (let z = folded_moving_sizes s allocation v mtt
      in folded_end_loop (orientation s) (box_homogeneous z) (max_child_size z) allocation v
           (rev (get_directed_children s))
           (if orientation s = GTK_ORIENTATION_HORIZONTAL
            then alloc_x (end_allocation z) else alloc_y (end_allocation z))
           (folded_start_loop (orientation s) (box_homogeneous z) (max_child_size z)
              allocation v (get_directed_children s)
              (if orientation s = GTK_ORIENTATION_HORIZONTAL
               then - alloc_x (start_allocation z) else - alloc_y (start_allocation z))
              (s\<lparr>mode_transition := (mode_transition s)
                   \<lparr>start_surface_allocation := start_allocation z,
                    end_surface_allocation := end_allocation z\<rparr>,
                 infos := (infos s)(v := (infos s v)
                   \<lparr>alloc := (if orientation s = GTK_ORIENTATION_HORIZONTAL then
                                \<lparr>alloc_x = remaining_start_size z, alloc_y = 0,
                                 alloc_width = visible_size z,
                                 alloc_height = alloc_height allocation\<rparr>
                              else
                                \<lparr>alloc_x = 0, alloc_y = remaining_start_size z,
                                 alloc_width = alloc_width allocation,
                                 alloc_height = visible_size z\<rparr>),
                    visible := True\<rparr>)\<rparr>)))"

text \<open>
  \<^verbatim>\<open>hdy_leaflet_size_allocate_folded\<close>. It reads \<^verbatim>\<open>visible_child->widget\<close> without a
  test.
\<close>

definition hdy_leaflet_size_allocate_folded :: "HdyLeaflet \<Rightarrow> GtkAllocation \<Rightarrow> HdyLeaflet option" where
  "hdy_leaflet_size_allocate_folded s allocation =
     (case visible_child s of
        None \<Rightarrow> None
      | Some v \<Rightarrow>
          (let directed_children = get_directed_children s;
               s1 = fold (folded_hide_child v) directed_children s
           in if widget (infos s1 v) = None then Some s1
              else if \<not> gtk_widget_get_visible s1 (widget (infos s1 v)) then
                Some (gtk_widget_set_child_visible (widget (infos s1 v)) False s1)
              else
                (let s2 = gtk_widget_set_child_visible (widget (infos s1 v)) True s1;
                     mtt = (if current_pos (mode_transition s2) \<le> 0.0
                            then HDY_LEAFLET_TRANSITION_TYPE_NONE else transition_type s2)
                 in if mtt = HDY_LEAFLET_TRANSITION_TYPE_NONE then
                      Some (fold (folded_place_child v allocation) directed_children s2)
                    else Some (size_allocate_folded_moving s2 allocation v mtt))))"


subsection \<open>Size allocation: the unfolded layout\<close>

text \<open>
  The first loop of \<^verbatim>\<open>hdy_leaflet_size_allocate_unfolded\<close>: it marks the children whose
  widget is visible, counts them and those that expand, and clears the sizes of the
  others. The result is \<^verbatim>\<open>(n_visible_children, n_expand_children)\<close> and the state.
\<close>

primrec unfolded_count_loop ::
  "GtkOrientation \<Rightarrow> nat list \<Rightarrow> int \<Rightarrow> int \<Rightarrow> HdyLeaflet \<Rightarrow> int \<times> int \<times> HdyLeaflet" where
  "unfolded_count_loop ori [] n_visible_children n_expand_children s =
     (n_visible_children, n_expand_children, s)"
| "unfolded_count_loop ori (c # cs) n_visible_children n_expand_children s =
     (if widget (infos s c) \<noteq> None \<and> gtk_widget_get_visible s (widget (infos s c)) then
        unfolded_count_loop ori cs (n_visible_children + 1)
          (if gtk_widget_compute_expand s (widget (infos s c)) ori
           then n_expand_children + 1 else n_expand_children)
          (s\<lparr>infos := (infos s)(c := (infos s c)\<lparr>visible := True\<rparr>)\<rparr>)
      else
        unfolded_count_loop ori cs n_visible_children n_expand_children
          (s\<lparr>infos := (infos s)(c := (infos s c)
               \<lparr>visible := False,
                min_req := \<lparr>req_width = 0, req_height = 0\<rparr>,
                nat_req := \<lparr>req_width = 0, req_height = 0\<rparr>\<rparr>)\<rparr>))"

text \<open>
  The loop "Compute children allocation", with the running \<^verbatim>\<open>remaining_alloc\<close> and
  \<^verbatim>\<open>n_extra_widgets\<close>.
\<close>

primrec unfolded_alloc_loop ::
  "GtkOrientation \<Rightarrow> bool \<Rightarrow> int \<Rightarrow> int \<Rightarrow> nat list \<Rightarrow> GtkAllocation \<Rightarrow> int \<Rightarrow> HdyLeaflet \<Rightarrow> HdyLeaflet" where
  "unfolded_alloc_loop ori bh homogeneous_size per_child_extra [] remaining_alloc n_extra_widgets s = s"
| "unfolded_alloc_loop ori bh homogeneous_size per_child_extra (c # cs) remaining_alloc n_extra_widgets s =
     (if \<not> visible (infos s c) then
        unfolded_alloc_loop ori bh homogeneous_size per_child_extra cs remaining_alloc n_extra_widgets s
      else
        (case (if bh then
                 (if n_extra_widgets > 0 then (homogeneous_size + 1, n_extra_widgets - 1)
                  else (homogeneous_size, n_extra_widgets))
               else
                 (if gtk_widget_compute_expand s (widget (infos s c)) ori then
                    (if n_extra_widgets > 0
                     then (nat_size_of s ori c + per_child_extra + 1, n_extra_widgets - 1)
                     else (nat_size_of s ori c + per_child_extra, n_extra_widgets))
                  else (nat_size_of s ori c, n_extra_widgets))) of
           (sz, n_extra) \<Rightarrow>
             (if ori = GTK_ORIENTATION_HORIZONTAL then
                unfolded_alloc_loop ori bh homogeneous_size per_child_extra cs
                  (remaining_alloc\<lparr>alloc_x := alloc_x remaining_alloc + sz,
                                    alloc_width := alloc_width remaining_alloc - sz\<rparr>)
                  n_extra
                  (s\<lparr>infos := (infos s)(c := (infos s c)
                       \<lparr>alloc := \<lparr>alloc_x = alloc_x remaining_alloc,
                                  alloc_y = alloc_y remaining_alloc,
                                  alloc_width = sz,
                                  alloc_height = alloc_height remaining_alloc\<rparr>\<rparr>)\<rparr>)
              else
                unfolded_alloc_loop ori bh homogeneous_size per_child_extra cs
                  (remaining_alloc\<lparr>alloc_y := alloc_y remaining_alloc + sz,
                                    alloc_height := alloc_height remaining_alloc - sz\<rparr>)
                  n_extra
                  (s\<lparr>infos := (infos s)(c := (infos s c)
                       \<lparr>alloc := \<lparr>alloc_x = alloc_x remaining_alloc,
                                  alloc_y = alloc_y remaining_alloc,
                                  alloc_width = alloc_width remaining_alloc,
                                  alloc_height = sz\<rparr>\<rparr>)\<rparr>))))"

text \<open>One step of the two loops of "Apply animations" that shift the children around the
  visible child by \<open>d\<close>.\<close>

definition unfolded_shift_child :: "GtkOrientation \<Rightarrow> bool \<Rightarrow> int \<Rightarrow> nat \<Rightarrow> HdyLeaflet \<Rightarrow> HdyLeaflet" where
  "unfolded_shift_child ori is_under d c s =
     (if \<not> visible (infos s c) then s
      else if is_under then s
      else if ori = GTK_ORIENTATION_HORIZONTAL then
        s\<lparr>infos := (infos s)(c := (infos s c)
             \<lparr>alloc := (alloc (infos s c))\<lparr>alloc_x := alloc_x (alloc (infos s c)) + d\<rparr>\<rparr>)\<rparr>
      else
        s\<lparr>infos := (infos s)(c := (infos s c)
             \<lparr>alloc := (alloc (infos s c))\<lparr>alloc_y := alloc_y (alloc (infos s c)) + d\<rparr>\<rparr>)\<rparr>)"

text \<open>
  The part "Apply animations" of \<^verbatim>\<open>hdy_leaflet_size_allocate_unfolded\<close>. First the
  local variables: \<^verbatim>\<open>start_pad\<close> and \<^verbatim>\<open>end_pad\<close>, and the two values that
  \<^verbatim>\<open>under\<close> takes, for the children before and for the children after the visible
  child.
\<close>

definition unfolded_start_pad :: "HdyLeaflet \<Rightarrow> nat \<Rightarrow> int" where
  "unfolded_start_pad s1 v =
     (if orientation s1 = GTK_ORIENTATION_HORIZONTAL then
        gint_of_gdouble (real_of_int (alloc_x (alloc (infos s1 v))) *
          (1.0 - current_pos (mode_transition s1)))
      else
        gint_of_gdouble (real_of_int (alloc_y (alloc (infos s1 v))) *
          (1.0 - current_pos (mode_transition s1))))"

definition unfolded_end_pad :: "HdyLeaflet \<Rightarrow> GtkAllocation \<Rightarrow> nat \<Rightarrow> int" where
  "unfolded_end_pad s1 allocation v =
     (if orientation s1 = GTK_ORIENTATION_HORIZONTAL then
        gint_of_gdouble
          (real_of_int (alloc_width allocation -
             (alloc_x (alloc (infos s1 v)) + alloc_width (alloc (infos s1 v)))) *
           (1.0 - current_pos (mode_transition s1)))
      else
        gint_of_gdouble
          (real_of_int (alloc_height allocation -
             (alloc_y (alloc (infos s1 v)) + alloc_height (alloc (infos s1 v)))) *
           (1.0 - current_pos (mode_transition s1))))"

definition unfolded_under_start :: "HdyLeaflet \<Rightarrow> bool" where
  "unfolded_under_start s1 =
     (if orientation s1 = GTK_ORIENTATION_HORIZONTAL then
        (transition_type s1 = HDY_LEAFLET_TRANSITION_TYPE_OVER \<and>
         direction (gtk s1) = GTK_TEXT_DIR_LTR) \<or>
        (transition_type s1 = HDY_LEAFLET_TRANSITION_TYPE_UNDER \<and>
         direction (gtk s1) = GTK_TEXT_DIR_RTL)
      else transition_type s1 = HDY_LEAFLET_TRANSITION_TYPE_OVER)"

definition unfolded_under_end :: "HdyLeaflet \<Rightarrow> bool" where
  "unfolded_under_end s1 =
     (if orientation s1 = GTK_ORIENTATION_HORIZONTAL then
        (transition_type s1 = HDY_LEAFLET_TRANSITION_TYPE_UNDER \<and>
         direction (gtk s1) = GTK_TEXT_DIR_LTR) \<or>
        (transition_type s1 = HDY_LEAFLET_TRANSITION_TYPE_OVER \<and>
         direction (gtk s1) = GTK_TEXT_DIR_RTL)
      else transition_type s1 = HDY_LEAFLET_TRANSITION_TYPE_UNDER)"

text \<open>The last statement of the function: the visible child grows over the pads.\<close>

definition unfolded_grow_visible :: "GtkOrientation \<Rightarrow> int \<Rightarrow> int \<Rightarrow> nat \<Rightarrow> HdyLeaflet \<Rightarrow> HdyLeaflet" where
  "unfolded_grow_visible ori start_pad end_pad v s3 =
     s3\<lparr>infos := (infos s3)(v := (infos s3 v)
          \<lparr>alloc := (if ori = GTK_ORIENTATION_HORIZONTAL then
                       (alloc (infos s3 v))
                         \<lparr>alloc_x := alloc_x (alloc (infos s3 v)) - start_pad,
                          alloc_width := alloc_width (alloc (infos s3 v)) + (start_pad + end_pad)\<rparr>
                     else
                       (alloc (infos s3 v))
                         \<lparr>alloc_y := alloc_y (alloc (infos s3 v)) - start_pad,
                          alloc_height := alloc_height (alloc (infos s3 v)) + (start_pad + end_pad)\<rparr>)\<rparr>)\<rparr>"

text \<open>
  The children before and after the visible child move away by the pads, and the visible
  child grows over the room they leave. The source reads \<^verbatim>\<open>visible_child->alloc\<close>
  without a test.
\<close>

definition unfolded_apply_animations :: "HdyLeaflet \<Rightarrow> GtkAllocation \<Rightarrow> HdyLeaflet option" where
  "unfolded_apply_animations s1 allocation =
     (case visible_child s1 of
        None \<Rightarrow> None
      | Some v \<Rightarrow>
          Some (unfolded_grow_visible (orientation s1)
                  (unfolded_start_pad s1 v) (unfolded_end_pad s1 allocation v) v
                  (fold (unfolded_shift_child (orientation s1) (unfolded_under_end s1)
                           (unfolded_end_pad s1 allocation v))
                     (takeWhile (\<lambda>c. c \<noteq> v) (rev (get_directed_children s1)))
                     (fold (unfolded_shift_child (orientation s1) (unfolded_under_start s1)
                              (- unfolded_start_pad s1 v))
                        (takeWhile (\<lambda>c. c \<noteq> v) (get_directed_children s1)) s1))))"

text \<open>
  "Compute repartition of extra space": from the counts of the first loop to
  \<^verbatim>\<open>(homogeneous_size, per_child_extra, n_extra_widgets)\<close>. The operators \<open>sdiv\<close> and
  \<open>smod\<close> are the division and the remainder of C; the homogeneous case divides by the
  number of visible children, which the caller has tested.
\<close>

definition unfolded_repartition ::
  "HdyLeaflet \<Rightarrow> GtkAllocation \<Rightarrow> int \<Rightarrow> int \<Rightarrow> int \<times> int \<times> int" where
  "unfolded_repartition s allocation n_visible_children n_expand_children0 =
     (let ori = orientation s;
          bh = box_homogeneous_of s ori;
          extent = (if ori = GTK_ORIENTATION_HORIZONTAL then alloc_width allocation
                    else alloc_height allocation);
          homogeneous_size = (if bh then extent sdiv n_visible_children else 0);
          n_expand_children = (if bh then extent smod n_visible_children
                               else n_expand_children0);
          min_size = (if bh then extent - n_expand_children
                      else sum_list (map (nat_size_of s ori) (get_directed_children s)));
          extra_size = extent - min_size;
          per_child_extra = (if n_expand_children > 0
                             then extra_size sdiv n_expand_children else 0);
          n_extra_widgets = (if n_expand_children > 0
                             then extra_size smod n_expand_children else 0)
      in (homogeneous_size, per_child_extra, n_extra_widgets))"

text \<open>
  \<^verbatim>\<open>hdy_leaflet_size_allocate_unfolded\<close>: the count of the visible children, "Compute
  repartition of extra space", "Compute children allocation" and "Apply animations".
\<close>

definition hdy_leaflet_size_allocate_unfolded :: "HdyLeaflet \<Rightarrow> GtkAllocation \<Rightarrow> HdyLeaflet option" where
  "hdy_leaflet_size_allocate_unfolded s0 allocation =
     (case unfolded_count_loop (orientation s0) (get_directed_children s0) 0 0 s0 of
        (n_visible_children, n_expand_children0, s) \<Rightarrow>
          (if box_homogeneous_of s0 (orientation s0) \<and> n_visible_children = 0 then None
           else
             (case unfolded_repartition s allocation n_visible_children n_expand_children0 of
                (homogeneous_size, per_child_extra, n_extra_widgets) \<Rightarrow>
                  unfolded_apply_animations
                    (unfolded_alloc_loop (orientation s0) (box_homogeneous_of s0 (orientation s0))
                       homogeneous_size per_child_extra (get_directed_children s0)
                       \<lparr>alloc_x = 0, alloc_y = 0,
                        alloc_width = alloc_width allocation,
                        alloc_height = alloc_height allocation\<rparr>
                       n_extra_widgets s)
                    allocation)))"

subsection \<open>Size allocation: the fold decision\<close>

text \<open>"Prepare children information", one step.\<close>

definition prepare_child :: "nat \<Rightarrow> HdyLeaflet \<Rightarrow> HdyLeaflet" where
  "prepare_child c s =
     s\<lparr>infos := (infos s)(c :=
          (case widget (infos s c) of
             None \<Rightarrow> infos s c
           | Some p \<Rightarrow> (infos s c)\<lparr>min_req := w_pref_min (widgets (gtk s) p),
                                    nat_req := w_pref_nat (widgets (gtk s) p)\<rparr>)
          \<lparr>alloc := \<lparr>alloc_x = 0, alloc_y = 0, alloc_width = 0, alloc_height = 0\<rparr>,
           visible := False\<rparr>)\<rparr>"

text \<open>
  "Check whether the children should be stacked or not": the loop over the directed
  children, written twice in the source, once for each orientation. The accumulator is
  \<^verbatim>\<open>(nat_box_size, nat_max_size, visible_children)\<close>.
\<close>

primrec nat_box_loop ::
  "HdyLeaflet \<Rightarrow> GtkOrientation \<Rightarrow> nat list \<Rightarrow> int \<times> int \<times> int \<Rightarrow> int \<times> int \<times> int" where
  "nat_box_loop s ori [] acc = acc"
| "nat_box_loop s ori (c # cs) acc =
     (case acc of
        (nat_box_size, nat_max_size, visible_children) \<Rightarrow>
          (if widget (infos s c) = None then nat_box_loop s ori cs acc
           else nat_box_loop s ori cs
                  (nat_box_size + nat_size_of s ori c,
                   max nat_max_size (nat_size_of s ori c),
                   visible_children + 1)))"

text \<open>"Apply visibility and allocation", one step.\<close>

definition apply_child :: "nat \<Rightarrow> HdyLeaflet \<Rightarrow> HdyLeaflet" where
  "apply_child c s =
     (let s1 = gtk_widget_set_child_visible (widget (infos s c)) (visible (infos s c)) s
      in if \<not> visible (infos s1 c) then s1
         else
           (let s2 = gtk_widget_size_allocate (widget (infos s1 c)) (alloc (infos s1 c)) s1
            in if realized (gtk s2) then gtk_widget_show (widget (infos s2 c)) s2 else s2))"

text \<open>
  The entry of \<^verbatim>\<open>hdy_leaflet_size_allocate\<close>: the allocation is stored in the widget,
  and a realized leaflet moves its view window there and resizes its bin window.
\<close>

definition size_allocate_windows :: "HdyLeaflet \<Rightarrow> GtkAllocation \<Rightarrow> HdyLeaflet" where
  "size_allocate_windows s allocation =
     (let s1 = s\<lparr>gtk := (gtk s)\<lparr>self_allocation := allocation\<rparr>\<rparr>
      in if realized (gtk s1) then
           move_resize_bin_window
             (s1\<lparr>view_window :=
                   (case view_window s1 of
                      None \<Rightarrow> None
                    | Some win \<Rightarrow>
                        Some \<lparr>win_x = alloc_x allocation, win_y = alloc_y allocation,
                              win_width = alloc_width allocation,
                              win_height = alloc_height allocation\<rparr>)\<rparr>)
             (Some allocation) True
         else s1)"

text \<open>
  \<^verbatim>\<open>hdy_leaflet_size_allocate\<close> in two parts. The first runs from the entry of the
  function to the call of \<^verbatim>\<open>hdy_leaflet_set_folded\<close>: it yields the local variable
  \<^verbatim>\<open>folded\<close> and the state after that call. The second allocates the children and
  applies their visibility.
\<close>

definition size_allocate_fold :: "HdyLeaflet \<Rightarrow> GtkAllocation \<Rightarrow> bool \<times> HdyLeaflet" where
  "size_allocate_fold s allocation =
     (let directed_children = get_directed_children s;
          s1 = fold prepare_child directed_children (size_allocate_windows s allocation)
      in case nat_box_loop s1 (orientation s1) directed_children (0, 0, 0) of
           (nat_box_size0, nat_max_size, visible_children) \<Rightarrow>
             (let nat_box_size = (if homogeneous s1 HDY_FOLD_UNFOLDED (orientation s1)
                                  then nat_max_size * visible_children else nat_box_size0);
                  fd = (if orientation s1 = GTK_ORIENTATION_HORIZONTAL
                        then alloc_width allocation < nat_box_size
                        else alloc_height allocation < nat_box_size)
              in (fd, hdy_leaflet_set_folded s1 fd)))"

definition hdy_leaflet_size_allocate :: "HdyLeaflet \<Rightarrow> GtkAllocation \<Rightarrow> HdyLeaflet option" where
  "hdy_leaflet_size_allocate s allocation =
     (case size_allocate_fold s allocation of
        (fd, s2) \<Rightarrow>
          (case (if fd then hdy_leaflet_size_allocate_folded s2 allocation
                 else hdy_leaflet_size_allocate_unfolded s2 allocation) of
             None \<Rightarrow> None
           | Some s3 \<Rightarrow> Some (fold apply_child (get_directed_children s) s3)))"

subsection \<open>The container: adding, removing and traversing children\<close>

text \<open>
  \<^verbatim>\<open>hdy_leaflet_add\<close>; \<open>p\<close> is the block that \<^verbatim>\<open>g_new0\<close> returns for the new child
  info.
\<close>

definition hdy_leaflet_add :: "HdyLeaflet \<Rightarrow> nat \<Rightarrow> nat \<Rightarrow> HdyLeaflet option" where
  "hdy_leaflet_add s w p =
     (if w_parent (widgets (gtk s) w) then Some s
      else
        (let s1 = gtk_widget_set_parent w True (gtk_widget_set_child_visible (Some w) False s);
             s2 = s1\<lparr>infos := (infos s1)(p :=
                       \<lparr>widget = Some w, name = None, allow_visible = True,
                        alloc = \<lparr>alloc_x = 0, alloc_y = 0, alloc_width = 0, alloc_height = 0\<rparr>,
                        min_req = \<lparr>req_width = 0, req_height = 0\<rparr>,
                        nat_req = \<lparr>req_width = 0, req_height = 0\<rparr>,
                        visible = False\<rparr>)\<rparr>;
             s3 = s2\<lparr>children := children s2 @ [p],
                     children_reversed := p # children_reversed s2\<rparr>
         in case (if hdy_leaflet_get_visible_child s3 = None \<and> gtk_widget_get_visible s3 (Some w)
                  then set_visible_child_info s3 (Some p) (transition_type s3)
                         (ct_duration (child_transition s3)) False
                  else Some s3) of
              None \<Rightarrow> None
            | Some s4 \<Rightarrow>
                Some (if \<not> folded s4 \<or>
                         (folded s4 \<and>
                          (homogeneous s4 HDY_FOLD_FOLDED GTK_ORIENTATION_HORIZONTAL \<or>
                           homogeneous s4 HDY_FOLD_FOLDED GTK_ORIENTATION_VERTICAL \<or>
                           visible_child s4 = Some p))
                      then gtk_widget_queue_resize s4 else s4)))"

text \<open>
  \<^verbatim>\<open>hdy_leaflet_remove\<close> first takes the child info out of both lists and releases it
  with \<^verbatim>\<open>free_child_info\<close>. What a later read of the released block yields is not
  determined by the program: it is the argument \<open>freed\<close>, which the store holds for the
  block from then on.
\<close>

definition remove_child_info :: "HdyLeaflet \<Rightarrow> nat \<Rightarrow> HdyLeafletChildInfo \<Rightarrow> HdyLeaflet" where
  "remove_child_info s child_info freed =
     s\<lparr>children := remove1 child_info (children s),
       children_reversed := remove1 child_info (children_reversed s),
       infos := (infos s)(child_info := freed)\<rparr>"

text \<open>
  The rest of \<^verbatim>\<open>hdy_leaflet_remove\<close> asks whether the removed widget is the visible
  one, which reads the released block through \<^verbatim>\<open>priv->visible_child\<close> when the removed
  child is the visible child: if the block still shows the widget, the leaflet looks for
  another visible child; if not, \<^verbatim>\<open>priv->visible_child\<close> keeps pointing to the released
  block.
\<close>

definition hdy_leaflet_remove :: "HdyLeaflet \<Rightarrow> nat \<Rightarrow> HdyLeafletChildInfo \<Rightarrow> HdyLeaflet option" where
  "hdy_leaflet_remove s w freed =
     (case find_child_info_for_widget s (Some w) of
        None \<Rightarrow> Some s
      | Some child_info \<Rightarrow>
          (case (if hdy_leaflet_get_visible_child (remove_child_info s child_info freed) = Some w
                 then set_visible_child_info (remove_child_info s child_info freed) None
                        (transition_type s) (ct_duration (child_transition s)) True
                 else Some (remove_child_info s child_info freed)) of
             None \<Rightarrow> None
           | Some s2 \<Rightarrow>
               Some (gtk_widget_set_parent w False
                       (if gtk_widget_get_visible s2 (Some w) then gtk_widget_queue_resize s2
                        else s2))))"

text \<open>
  \<^verbatim>\<open>hdy_leaflet_forall\<close>: the callback, which may change the leaflet, runs on the widget
  of every child of a copy of the list; then the reversed list is rebuilt.
\<close>

primrec forall_loop ::
  "(nat option \<Rightarrow> HdyLeaflet \<Rightarrow> HdyLeaflet option) \<Rightarrow> nat list \<Rightarrow> HdyLeaflet \<Rightarrow> HdyLeaflet option" where
  "forall_loop callback [] s = Some s"
| "forall_loop callback (c # cs) s =
     (case callback (widget (infos s c)) s of
        None \<Rightarrow> None
      | Some s' \<Rightarrow> forall_loop callback cs s')"

definition hdy_leaflet_forall ::
  "HdyLeaflet \<Rightarrow> (nat option \<Rightarrow> HdyLeaflet \<Rightarrow> HdyLeaflet option) \<Rightarrow> HdyLeaflet option" where
  "hdy_leaflet_forall s callback =
     (case forall_loop callback (children s) s of
        None \<Rightarrow> None
      | Some s' \<Rightarrow> Some (s'\<lparr>children_reversed := rev (children s')\<rparr>))"

subsection \<open>Construction and properties\<close>

text \<open>
  \<^verbatim>\<open>hdy_leaflet_init\<close> on the zero-filled private structure: every field that the
  function does not set is 0, \<^verbatim>\<open>NULL\<close> or the first value of its enumeration, and a
  tracker that was never started reports \<^verbatim>\<open>GTK_PROGRESS_STATE_AFTER\<close>. The arguments
  are the store of child infos and the toolkit state that the leaflet starts in.
\<close>

definition hdy_leaflet_init :: "(nat \<Rightarrow> HdyLeafletChildInfo) \<Rightarrow> GtkState \<Rightarrow> HdyLeaflet" where
  "hdy_leaflet_init mem g =
     \<lparr>children = [],
      children_reversed = [],
      visible_child = None,
      last_visible_child = None,
      folded = False,
      homogeneous = (\<lambda>fd ori. fd = HDY_FOLD_FOLDED),
      orientation = GTK_ORIENTATION_HORIZONTAL,
      transition_type = HDY_LEAFLET_TRANSITION_TYPE_NONE,
      mode_transition =
        \<lparr>mt_duration = 250, current_pos = 1.0, source_pos = 0, target_pos = 1.0,
         start_surface_allocation = \<lparr>alloc_x = 0, alloc_y = 0, alloc_width = 0, alloc_height = 0\<rparr>,
         end_surface_allocation = \<lparr>alloc_x = 0, alloc_y = 0, alloc_width = 0, alloc_height = 0\<rparr>,
         mt_tick_id = 0, mt_tracker = GTK_PROGRESS_STATE_AFTER\<rparr>,
      child_transition =
        \<lparr>ct_duration = 200, progress = 0, ct_start_progress = 0, ct_end_progress = 0,
         is_gesture_active = False, is_cancelled = False,
         ct_tick_id = 0, ct_tracker = GTK_PROGRESS_STATE_AFTER,
         first_frame_skipped = False,
         last_visible_widget_width = 0, last_visible_widget_height = 0,
         interpolate_size = False, can_swipe_back = False, can_swipe_forward = False,
         active_type = HDY_LEAFLET_TRANSITION_TYPE_NONE,
         active_direction = GTK_PAN_DIRECTION_LEFT\<rparr>,
      bin_window = None,
      view_window = None,
      move_bin_window_request = False,
      infos = mem,
      gtk = g\<rparr>"

text \<open>
  \<^verbatim>\<open>hdy_leaflet_realize\<close> creates the view window at the allocation of the leaflet and,
  inside it, the bin window at the padding of the style; \<^verbatim>\<open>hdy_leaflet_unrealize\<close>
  destroys both.
\<close>

definition hdy_leaflet_realize :: "HdyLeaflet \<Rightarrow> int \<Rightarrow> int \<Rightarrow> HdyLeaflet" where
  "hdy_leaflet_realize s padding_left padding_top =
     s\<lparr>gtk := (gtk s)\<lparr>realized := True\<rparr>,
       view_window := Some
         \<lparr>win_x = alloc_x (self_allocation (gtk s)), win_y = alloc_y (self_allocation (gtk s)),
          win_width = alloc_width (self_allocation (gtk s)),
          win_height = alloc_height (self_allocation (gtk s))\<rparr>,
       bin_window := Some
         \<lparr>win_x = padding_left, win_y = padding_top,
          win_width = alloc_width (self_allocation (gtk s)),
          win_height = alloc_height (self_allocation (gtk s))\<rparr>\<rparr>"

definition hdy_leaflet_unrealize :: "HdyLeaflet \<Rightarrow> HdyLeaflet" where
  "hdy_leaflet_unrealize s =
     s\<lparr>bin_window := None, view_window := None, gtk := (gtk s)\<lparr>realized := False\<rparr>\<rparr>"

text \<open>
  \<^verbatim>\<open>hdy_leaflet_map\<close> and \<^verbatim>\<open>hdy_leaflet_unmap\<close> chain up to the parent class, which
  sets and clears the mapped flag, and show and hide the view window.
\<close>

definition hdy_leaflet_map :: "HdyLeaflet \<Rightarrow> HdyLeaflet" where
  "hdy_leaflet_map s = s\<lparr>gtk := (gtk s)\<lparr>mapped := True\<rparr>\<rparr>"

definition hdy_leaflet_unmap :: "HdyLeaflet \<Rightarrow> HdyLeaflet" where
  "hdy_leaflet_unmap s = s\<lparr>gtk := (gtk s)\<lparr>mapped := False\<rparr>\<rparr>"

definition fold_index :: "bool \<Rightarrow> HdyFold" where
  "fold_index fd = (if fd then HDY_FOLD_FOLDED else HDY_FOLD_UNFOLDED)"

definition hdy_leaflet_set_homogeneous :: "HdyLeaflet \<Rightarrow> bool \<Rightarrow> GtkOrientation \<Rightarrow> bool \<Rightarrow> HdyLeaflet" where
  "hdy_leaflet_set_homogeneous s fd ori h =
     (if homogeneous s (fold_index fd) ori = h then s
      else
        (let s1 = s\<lparr>homogeneous := (homogeneous s)
                    (fold_index fd := (homogeneous s (fold_index fd))(ori := h))\<rparr>
         in if widget_visible (gtk s1) then gtk_widget_queue_resize s1 else s1))"

definition hdy_leaflet_set_transition_type :: "HdyLeaflet \<Rightarrow> HdyLeafletTransitionType \<Rightarrow> HdyLeaflet" where
  "hdy_leaflet_set_transition_type s t =
     (if transition_type s = t then s else s\<lparr>transition_type := t\<rparr>)"

definition hdy_leaflet_set_can_swipe_back :: "HdyLeaflet \<Rightarrow> bool \<Rightarrow> HdyLeaflet" where
  "hdy_leaflet_set_can_swipe_back s b =
     (if can_swipe_back (child_transition s) = b then s
      else s\<lparr>child_transition := (child_transition s)\<lparr>can_swipe_back := b\<rparr>\<rparr>)"

definition hdy_leaflet_set_can_swipe_forward :: "HdyLeaflet \<Rightarrow> bool \<Rightarrow> HdyLeaflet" where
  "hdy_leaflet_set_can_swipe_forward s b =
     (if can_swipe_forward (child_transition s) = b then s
      else s\<lparr>child_transition := (child_transition s)\<lparr>can_swipe_forward := b\<rparr>\<rparr>)"

text \<open>
  \<^verbatim>\<open>hdy_leaflet_set_child_property\<close> for \<^verbatim>\<open>CHILD_PROP_ALLOW_VISIBLE\<close>.
\<close>

definition hdy_leaflet_set_child_allow_visible :: "HdyLeaflet \<Rightarrow> nat \<Rightarrow> bool \<Rightarrow> HdyLeaflet option" where
  "hdy_leaflet_set_child_allow_visible s w b =
     (case find_child_info_for_widget s (Some w) of
        None \<Rightarrow> Some s
      | Some child_info \<Rightarrow>
          (let s1 = s\<lparr>infos := (infos s)(child_info := (infos s child_info)\<lparr>allow_visible := b\<rparr>)\<rparr>
           in if \<not> allow_visible (infos s1 child_info) \<and> hdy_leaflet_get_visible_child s1 = Some w
              then set_visible_child_info s1 None (transition_type s1)
                     (ct_duration (child_transition s1)) True
              else Some s1))"


section \<open>Example leaflets\<close>

text \<open>
  Closed states on which the properties below are exercised: a page widget that is
  visible and asks for 100 by 50 pixels, the toolkit state of a widget that is shown but
  not yet realized or mapped, with animations enabled, and the leaflet that
  \<^verbatim>\<open>hdy_leaflet_init\<close> builds in it.
\<close>

definition zero_allocation :: GtkAllocation where
  "zero_allocation = \<lparr>alloc_x = 0, alloc_y = 0, alloc_width = 0, alloc_height = 0\<rparr>"

definition page_widget :: GtkWidget where
  "page_widget =
     \<lparr>w_visible = True, w_child_visible = False, w_parent = False,
      w_pref_min = \<lparr>req_width = 0, req_height = 0\<rparr>,
      w_pref_nat = \<lparr>req_width = 100, req_height = 50\<rparr>,
      w_hexpand = False, w_vexpand = False, w_allocation = zero_allocation\<rparr>"

definition blank_info :: HdyLeafletChildInfo where
  "blank_info =
     \<lparr>widget = None, name = None, allow_visible = False, alloc = zero_allocation,
      min_req = \<lparr>req_width = 0, req_height = 0\<rparr>,
      nat_req = \<lparr>req_width = 0, req_height = 0\<rparr>,
      visible = False\<rparr>"

definition fresh_gtk :: GtkState where
  "fresh_gtk =
     \<lparr>widgets = (\<lambda>_. page_widget), mapped = False, realized = False,
      widget_visible = True, is_visible = True,
      in_destruction = False, direction = GTK_TEXT_DIR_LTR, enable_animations = True,
      tick_counter = 0, self_allocation = zero_allocation,
      draw_queued = False, resize_queued = False, allocate_queued = False,
      nan_as_gint = - 2147483648\<rparr>"

definition new_leaflet :: HdyLeaflet where
  "new_leaflet = hdy_leaflet_init (\<lambda>_. blank_info) fresh_gtk"

text \<open>
  The leaflet after \<^verbatim>\<open>hdy_leaflet_add\<close> of the page widgets 1 and 2, whose child infos
  are the blocks 1 and 2, realized with no padding and mapped; and two allocations: one
  narrower than the two pages side by side, and one exactly as wide.
\<close>

definition page_info :: "nat \<Rightarrow> HdyLeafletChildInfo" where
  "page_info w = blank_info\<lparr>widget := Some w, allow_visible := True\<rparr>"

definition two_pages :: HdyLeaflet where
  "two_pages =
     new_leaflet
       \<lparr>children := [1, 2], children_reversed := [2, 1], visible_child := Some 1,
        bin_window := Some \<lparr>win_x = 0, win_y = 0, win_width = 0, win_height = 0\<rparr>,
        view_window := Some \<lparr>win_x = 0, win_y = 0, win_width = 0, win_height = 0\<rparr>,
        infos := (\<lambda>_. blank_info)(1 := page_info 1, 2 := page_info 2),
        gtk := fresh_gtk\<lparr>widgets := (\<lambda>_. page_widget)
                 (1 := page_widget\<lparr>w_child_visible := True, w_parent := True\<rparr>,
                  2 := page_widget\<lparr>w_parent := True\<rparr>),
               mapped := True, realized := True, resize_queued := True\<rparr>\<rparr>"

definition narrow_allocation :: GtkAllocation where
  "narrow_allocation = \<lparr>alloc_x = 0, alloc_y = 0, alloc_width = 150, alloc_height = 50\<rparr>"


text \<open>
  The two pages with the transition type \<^verbatim>\<open>SLIDE\<close> and swipes allowed in both
  directions.
\<close>

definition sliding_pages :: HdyLeaflet where
  "sliding_pages =
     hdy_leaflet_set_can_swipe_forward
       (hdy_leaflet_set_can_swipe_back
          (hdy_leaflet_set_transition_type two_pages HDY_LEAFLET_TRANSITION_TYPE_SLIDE) True)
       True"



text \<open>
  The sliding pages after an allocation too narrow for both: the leaflet folds and
  animates the mode transition.
\<close>

definition folding_pages :: "HdyLeaflet option" where
  "folding_pages = hdy_leaflet_size_allocate sliding_pages narrow_allocation"



text \<open>
  The leaflet after \<^verbatim>\<open>hdy_leaflet_add\<close> of the page widgets \<open>ws\<close> in turn, the child
  info of the widget \<open>w\<close> being the block \<open>w\<close>; and a callback for
  \<^verbatim>\<open>hdy_leaflet_forall\<close> that removes the widget \<open>v\<close> from the leaflet when it meets it,
  as \<^verbatim>\<open>gtk_container_remove\<close> does, the released block reading as zeros afterwards.
\<close>

definition added_pages :: "nat list \<Rightarrow> HdyLeaflet option" where
  "added_pages ws = fold (\<lambda>w r. Option.bind r (\<lambda>s. hdy_leaflet_add s w w)) ws (Some new_leaflet)"

definition remove_page :: "nat \<Rightarrow> nat option \<Rightarrow> HdyLeaflet \<Rightarrow> HdyLeaflet option" where
  "remove_page v w s = (if w = Some v then hdy_leaflet_remove s v blank_info else Some s)"


text \<open>
  The sliding pages whose second page has the child property \<^verbatim>\<open>allow-visible\<close> set to
  \<^verbatim>\<open>FALSE\<close>.
\<close>

definition locked_pages :: "HdyLeaflet option" where
  "locked_pages = hdy_leaflet_set_child_allow_visible sliding_pages 2 False"

text \<open>
  A gesture that starts while the leaflet still folds, and ends with a swipe to the
  second page in 100 milliseconds.
\<close>

definition racing_pages :: "HdyLeaflet option" where
  "racing_pages =
     Option.bind
       (Option.bind folding_pages
          (\<lambda>s. hdy_leaflet_begin_swipe s HDY_NAVIGATION_DIRECTION_FORWARD True))
       (\<lambda>s. hdy_leaflet_end_swipe s 100 1)"

text \<open>
  The two pages made homogeneous along the horizontal orientation while unfolded, and an
  allocation one pixel wider than both pages.
\<close>

definition homogeneous_pages :: HdyLeaflet where
  "homogeneous_pages =
     hdy_leaflet_set_homogeneous two_pages False GTK_ORIENTATION_HORIZONTAL True"

definition odd_allocation :: GtkAllocation where
  "odd_allocation = \<lparr>alloc_x = 0, alloc_y = 0, alloc_width = 201, alloc_height = 50\<rparr>"


section \<open>Notions used by the properties\<close>

text \<open>
  The invariant of the two child lists: \<^verbatim>\<open>children_reversed\<close> is \<^verbatim>\<open>children\<close>
  reversed, and no child info is listed twice (\<^verbatim>\<open>hdy_leaflet_add\<close> lists a block
  fresh from \<^verbatim>\<open>g_new0\<close>).
\<close>

definition children_inv :: "HdyLeaflet \<Rightarrow> bool" where
  "children_inv s = (children_reversed s = rev (children s) \<and> distinct (children s))"



text \<open>The child info that "Prepare children information" leaves for a child.\<close>

definition prepared :: "HdyLeaflet \<Rightarrow> nat \<Rightarrow> HdyLeafletChildInfo" where
  "prepared s c = infos (prepare_child c s) c"




section \<open>Properties\<close>

subsection \<open>The example leaflets\<close>

lemmas example_defs = new_leaflet_def hdy_leaflet_init_def fresh_gtk_def page_widget_def
  blank_info_def zero_allocation_def

text \<open>The definitions that an evaluation of the operations on a closed state unfolds.\<close>

lemmas trace_defs =
  hdy_leaflet_size_allocate_def size_allocate_fold_def size_allocate_windows_def
  get_directed_children_def prepare_child_def nat_size_of_def
  hdy_leaflet_set_folded_def hdy_leaflet_start_mode_transition_def
  hdy_leaflet_stop_child_transition_def hdy_leaflet_unschedule_child_ticks_def
  hdy_leaflet_schedule_child_ticks_def
  hdy_leaflet_set_position_def hdy_leaflet_get_visible_child_def gtk_widget_get_child_visible_def
  gtk_widget_set_child_visible_def gtk_widget_add_tick_callback_def
  gtk_widget_queue_draw_def gtk_widget_queue_resize_def gtk_widget_queue_allocate_def
  move_resize_bin_window_def is_window_moving_child_transition_def
  get_bin_window_x_def get_bin_window_y_def
  hdy_leaflet_size_allocate_folded_def folded_hide_child_def folded_place_child_def
  gtk_widget_get_visible_def size_allocate_folded_moving_def folded_moving_sizes_def
  box_homogeneous_of_def gint_of_gdouble_def
  hdy_leaflet_size_allocate_unfolded_def unfolded_repartition_def unfolded_apply_animations_def
  unfolded_start_pad_def unfolded_end_pad_def unfolded_under_start_def unfolded_under_end_def
  unfolded_grow_visible_def unfolded_shift_child_def gtk_widget_compute_expand_def
  apply_child_def gtk_widget_size_allocate_def gtk_widget_show_def
  hdy_leaflet_mode_transition_cb_def gtk_progress_tracker_advance_frame_def
  hdy_leaflet_child_transition_cb_def
  hdy_leaflet_child_progress_updated_def child_progress_apply_def child_progress_settle_def
  hdy_leaflet_start_child_transition_def set_visible_child_info_def switch_visible_child_def
  is_direction_dependent_child_transition_def get_pan_direction_def
  hdy_leaflet_begin_swipe_def hdy_leaflet_update_swipe_def hdy_leaflet_end_swipe_def
  find_swipeable_child_def can_swipe_in_direction_def hdy_leaflet_navigate_def
  hdy_leaflet_set_transition_type_def hdy_leaflet_set_can_swipe_back_def
  hdy_leaflet_set_can_swipe_forward_def hdy_leaflet_set_visible_child_def
  find_child_info_for_widget_def
  hdy_leaflet_add_def gtk_widget_set_parent_def hdy_leaflet_remove_def remove_child_info_def
  hdy_leaflet_forall_def hdy_leaflet_realize_def hdy_leaflet_map_def

subsection \<open>Fields that the mode transition keeps\<close>

lemma stop_child_transition_fields:
  "mode_transition (hdy_leaflet_stop_child_transition s) = mode_transition s"
  "folded (hdy_leaflet_stop_child_transition s) = folded s"
  "transition_type (hdy_leaflet_stop_child_transition s) = transition_type s"
  "mapped (gtk (hdy_leaflet_stop_child_transition s)) = mapped (gtk s)"
  "enable_animations (gtk (hdy_leaflet_stop_child_transition s)) = enable_animations (gtk s)"
  "ct_tick_id (child_transition (hdy_leaflet_stop_child_transition s)) = 0"
  by (simp_all add: hdy_leaflet_stop_child_transition_def hdy_leaflet_unschedule_child_ticks_def
      gtk_widget_set_child_visible_def Let_def split: option.splits)

lemma set_position_fields:
  "mode_transition (hdy_leaflet_set_position s pos) = (mode_transition s)\<lparr>current_pos := pos\<rparr>"
  "folded (hdy_leaflet_set_position s pos) = folded s"
  by (simp_all add: hdy_leaflet_set_position_def gtk_widget_set_child_visible_def
      gtk_widget_queue_resize_def Let_def split: option.splits)

lemma start_mode_transition_same:
  "target_pos (mode_transition s) = t \<Longrightarrow> hdy_leaflet_start_mode_transition s t = s"
  by (simp add: hdy_leaflet_start_mode_transition_def)

lemma start_mode_transition_animated:
  assumes "target_pos (mode_transition s) \<noteq> t"
    and "mapped (gtk s) \<and> mt_duration (mode_transition s) \<noteq> 0 \<and>
      transition_type s \<noteq> HDY_LEAFLET_TRANSITION_TYPE_NONE \<and> enable_animations (gtk s)"
  shows "mode_transition (hdy_leaflet_start_mode_transition s t) =
      (mode_transition s)
        \<lparr>target_pos := t, source_pos := current_pos (mode_transition s),
         mt_tick_id := (if mt_tick_id (mode_transition s) = 0
                        then Suc (tick_counter (gtk (hdy_leaflet_stop_child_transition s)))
                        else mt_tick_id (mode_transition s)),
         mt_tracker := GTK_PROGRESS_STATE_DURING\<rparr>"
    and "folded (hdy_leaflet_start_mode_transition s t) = folded s"
proof -
  let ?s2 = "hdy_leaflet_stop_child_transition (s\<lparr>mode_transition := (mode_transition s)\<lparr>target_pos := t\<rparr>\<rparr>)"
  have c: "mapped (gtk ?s2) \<and> mt_duration (mode_transition ?s2) \<noteq> 0 \<and>
      transition_type ?s2 \<noteq> HDY_LEAFLET_TRANSITION_TYPE_NONE \<and> enable_animations (gtk ?s2)"
    using assms(2) by (simp add: stop_child_transition_fields)
  have g: "tick_counter (gtk ?s2) = tick_counter (gtk (hdy_leaflet_stop_child_transition s))"
    by (simp add: hdy_leaflet_stop_child_transition_def hdy_leaflet_unschedule_child_ticks_def
        gtk_widget_set_child_visible_def Let_def split: option.splits)
  have u: "hdy_leaflet_start_mode_transition s t =
      (let s3 = ?s2\<lparr>mode_transition := (mode_transition ?s2)
                    \<lparr>source_pos := current_pos (mode_transition ?s2)\<rparr>\<rparr>;
           s4 = (if mt_tick_id (mode_transition s3) = 0 then
                   (case gtk_widget_add_tick_callback s3 of
                      (i, s') \<Rightarrow> s'\<lparr>mode_transition := (mode_transition s')\<lparr>mt_tick_id := i\<rparr>\<rparr>)
                 else s3)
       in s4\<lparr>mode_transition := (mode_transition s4)\<lparr>mt_tracker := GTK_PROGRESS_STATE_DURING\<rparr>\<rparr>)"
    unfolding hdy_leaflet_start_mode_transition_def Let_def
    by (simp only: if_not_P [OF assms(1)] if_P [OF c])
  show "mode_transition (hdy_leaflet_start_mode_transition s t) =
      (mode_transition s)
        \<lparr>target_pos := t, source_pos := current_pos (mode_transition s),
         mt_tick_id := (if mt_tick_id (mode_transition s) = 0
                        then Suc (tick_counter (gtk (hdy_leaflet_stop_child_transition s)))
                        else mt_tick_id (mode_transition s)),
         mt_tracker := GTK_PROGRESS_STATE_DURING\<rparr>"
    unfolding u Let_def
    by (simp add: stop_child_transition_fields gtk_widget_add_tick_callback_def g)
  show "folded (hdy_leaflet_start_mode_transition s t) = folded s"
    unfolding u Let_def
    by (simp add: stop_child_transition_fields gtk_widget_add_tick_callback_def)
qed

lemma start_mode_transition_direct:
  assumes "target_pos (mode_transition s) \<noteq> t"
    and "\<not> (mapped (gtk s) \<and> mt_duration (mode_transition s) \<noteq> 0 \<and>
      transition_type s \<noteq> HDY_LEAFLET_TRANSITION_TYPE_NONE \<and> enable_animations (gtk s))"
  shows "mode_transition (hdy_leaflet_start_mode_transition s t) =
      (mode_transition s)\<lparr>target_pos := t, current_pos := t\<rparr>"
    and "folded (hdy_leaflet_start_mode_transition s t) = folded s"
proof -
  let ?s2 = "hdy_leaflet_stop_child_transition (s\<lparr>mode_transition := (mode_transition s)\<lparr>target_pos := t\<rparr>\<rparr>)"
  have c: "\<not> (mapped (gtk ?s2) \<and> mt_duration (mode_transition ?s2) \<noteq> 0 \<and>
      transition_type ?s2 \<noteq> HDY_LEAFLET_TRANSITION_TYPE_NONE \<and> enable_animations (gtk ?s2))"
    using assms(2) by (simp add: stop_child_transition_fields)
  have u: "hdy_leaflet_start_mode_transition s t = hdy_leaflet_set_position ?s2 t"
    unfolding hdy_leaflet_start_mode_transition_def Let_def
    by (simp only: if_not_P [OF assms(1)] if_not_P [OF c])
  show "mode_transition (hdy_leaflet_start_mode_transition s t) =
      (mode_transition s)\<lparr>target_pos := t, current_pos := t\<rparr>"
    unfolding u by (simp add: set_position_fields stop_child_transition_fields)
  show "folded (hdy_leaflet_start_mode_transition s t) = folded s"
    unfolding u by (simp add: set_position_fields stop_child_transition_fields)
qed

lemma start_mode_transition_folded [simp]:
  "folded (hdy_leaflet_start_mode_transition s t) = folded s"
proof (cases "target_pos (mode_transition s) = t")
  case True
  then show ?thesis by (simp add: start_mode_transition_same)
next
  case False
  show ?thesis
  proof (cases "mapped (gtk s) \<and> mt_duration (mode_transition s) \<noteq> 0 \<and>
      transition_type s \<noteq> HDY_LEAFLET_TRANSITION_TYPE_NONE \<and> enable_animations (gtk s)")
    case True
    from start_mode_transition_animated(2) [OF False True] show ?thesis .
  next
    case c: False
    from start_mode_transition_direct(2) [OF False c] show ?thesis .
  qed
qed

lemma set_folded_folded [simp]: "folded (hdy_leaflet_set_folded s fd) = fd"
  by (simp add: hdy_leaflet_set_folded_def Let_def)

subsection \<open>Whether a child transition is running\<close>

text \<open>
  Claim C7. \<^verbatim>\<open>hdy_leaflet_get_child_transition_running\<close> answers \<^verbatim>\<open>TRUE\<close> exactly when
  a child-transition tick callback is scheduled (the identifier \<^verbatim>\<open>tick_id\<close> is not 0)
  or a swipe gesture is driving the transition. Scheduling the ticks therefore makes the
  transition running, and after unscheduling them it runs exactly if a gesture is active.
\<close>

theorem child_transition_running_iff:
  "hdy_leaflet_get_child_transition_running s =
     (ct_tick_id (child_transition s) \<noteq> 0 \<or> is_gesture_active (child_transition s))
   \<and> hdy_leaflet_get_child_transition_running (hdy_leaflet_schedule_child_ticks s)
   \<and> hdy_leaflet_get_child_transition_running (hdy_leaflet_unschedule_child_ticks s) =
       is_gesture_active (child_transition s)"
  by (simp add: hdy_leaflet_get_child_transition_running_def hdy_leaflet_schedule_child_ticks_def
      hdy_leaflet_unschedule_child_ticks_def gtk_widget_add_tick_callback_def)

theorem child_transition_running_witness:
  "\<not> hdy_leaflet_get_child_transition_running new_leaflet \<and>
   hdy_leaflet_get_child_transition_running (hdy_leaflet_schedule_child_ticks new_leaflet)"
  using child_transition_running_iff [of new_leaflet]
  by (simp add: new_leaflet_def hdy_leaflet_init_def)

subsection \<open>Gesture updates\<close>



subsection \<open>Starting the mode transition\<close>




subsection \<open>Operations that keep the lists of children\<close>

lemma set_child_visible_children [simp]:
  "children (gtk_widget_set_child_visible w b s) = children s"
  "children_reversed (gtk_widget_set_child_visible w b s) = children_reversed s"
  by (simp_all add: gtk_widget_set_child_visible_def split: option.splits)

lemma queue_children [simp]:
  "children (gtk_widget_queue_draw s) = children s"
  "children_reversed (gtk_widget_queue_draw s) = children_reversed s"
  "children (gtk_widget_queue_resize s) = children s"
  "children_reversed (gtk_widget_queue_resize s) = children_reversed s"
  "children (gtk_widget_queue_allocate s) = children s"
  "children_reversed (gtk_widget_queue_allocate s) = children_reversed s"
  by (simp_all add: gtk_widget_queue_draw_def gtk_widget_queue_resize_def
      gtk_widget_queue_allocate_def)

lemma move_resize_bin_window_children [simp]:
  "children (move_resize_bin_window s a r) = children s"
  "children_reversed (move_resize_bin_window s a r) = children_reversed s"
  by (simp_all add: move_resize_bin_window_def Let_def split: option.splits)

lemma child_progress_apply_children [simp]:
  "children (child_progress_apply s) = children s"
  "children_reversed (child_progress_apply s) = children_reversed s"
  by (simp_all add: child_progress_apply_def)

lemma child_progress_settle_children:
  "child_progress_settle s = Some s' \<Longrightarrow>
     children s' = children s \<and> children_reversed s' = children_reversed s"
  by (auto simp add: child_progress_settle_def split: if_splits option.splits)

lemma child_progress_updated_children:
  "hdy_leaflet_child_progress_updated s = Some s' \<Longrightarrow>
     children s' = children s \<and> children_reversed s' = children_reversed s"
  by (auto simp add: hdy_leaflet_child_progress_updated_def split: if_splits
      dest!: child_progress_settle_children)

lemma schedule_child_ticks_children [simp]:
  "children (hdy_leaflet_schedule_child_ticks s) = children s"
  "children_reversed (hdy_leaflet_schedule_child_ticks s) = children_reversed s"
  "children (hdy_leaflet_unschedule_child_ticks s) = children s"
  "children_reversed (hdy_leaflet_unschedule_child_ticks s) = children_reversed s"
  by (simp_all add: hdy_leaflet_schedule_child_ticks_def hdy_leaflet_unschedule_child_ticks_def
      gtk_widget_add_tick_callback_def)

lemma start_child_transition_children:
  "hdy_leaflet_start_child_transition s t d p = Some s' \<Longrightarrow>
     children s' = children s \<and> children_reversed s' = children_reversed s"
  unfolding hdy_leaflet_start_child_transition_def
  by (drule child_progress_updated_children) (simp add: Let_def split: if_splits)

lemma set_visible_child_info_children:
  assumes "set_visible_child_info s c t d e = Some s'"
  shows "children s' = children s \<and> children_reversed s' = children_reversed s"
  using assms
  unfolding set_visible_child_info_def switch_visible_child_def Let_def
  by (auto split: if_splits option.splits dest!: start_child_transition_children)

lemma remove1_rev_distinct: "distinct xs \<Longrightarrow> remove1 x (rev xs) = rev (remove1 x xs)"
  by (induction xs) (auto simp add: remove1_append remove1_idem)

lemma remove_child_info_children [simp]:
  "children (remove_child_info s c freed) = remove1 c (children s)"
  "children_reversed (remove_child_info s c freed) = remove1 c (children_reversed s)"
  by (simp_all add: remove_child_info_def)

lemma remove_child_info_inv:
  "children_inv s \<Longrightarrow> children_inv (remove_child_info s c freed)"
  by (simp add: children_inv_def remove1_rev_distinct)

lemma hdy_leaflet_add_children:
  assumes "\<not> w_parent (widgets (gtk s) w)" and "hdy_leaflet_add s w p = Some s'"
  shows "children s' = children s @ [p] \<and> children_reversed s' = p # children_reversed s"
  using assms
  by (auto simp add: hdy_leaflet_add_def Let_def gtk_widget_set_parent_def
      split: if_splits option.splits dest!: set_visible_child_info_children)

lemma hdy_leaflet_remove_children:
  assumes "find_child_info_for_widget s (Some w) = Some c"
    and "hdy_leaflet_remove s w freed = Some s'"
  shows "children s' = remove1 c (children s) \<and>
         children_reversed s' = remove1 c (children_reversed s)"
  using assms
  by (auto simp add: hdy_leaflet_remove_def gtk_widget_set_parent_def
      split: if_splits option.splits dest!: set_visible_child_info_children)

lemma hdy_leaflet_remove_returns:
  assumes "find_child_info_for_widget s (Some w) = Some c"
    and "hdy_leaflet_get_visible_child (remove_child_info s c freed) \<noteq> Some w"
  shows "\<exists>s'. hdy_leaflet_remove s w freed = Some s' \<and> visible_child s' = visible_child s"
  using assms
  by (simp add: hdy_leaflet_remove_def gtk_widget_set_parent_def gtk_widget_queue_resize_def
      remove_child_info_def)

lemma forall_loop_preserves:
  assumes "\<And>c t t'. P t \<Longrightarrow> cb c t = Some t' \<Longrightarrow> P t'"
  shows "P s \<Longrightarrow> forall_loop cb cs s = Some s' \<Longrightarrow> P s'"
proof (induction cs arbitrary: s)
  case Nil
  then show ?case by simp
next
  case (Cons c cs)
  from Cons.prems(2) obtain t where t: "cb (widget (infos s c)) s = Some t"
    and l: "forall_loop cb cs t = Some s'"
    by (auto split: option.splits)
  from assms [OF Cons.prems(1) t] have "P t" .
  from Cons.IH [OF this l] show ?case .
qed

lemma forall_loop_returns:
  assumes "\<And>c t. cb c t \<noteq> None"
  shows "forall_loop cb cs s \<noteq> None"
proof (induction cs arbitrary: s)
  case Nil
  then show ?case by simp
next
  case (Cons c cs)
  from assms obtain t where "cb (widget (infos s c)) s = Some t" by blast
  with Cons.IH [of t] show ?case by simp
qed

lemma added_pages_snoc:
  "added_pages (ws @ [w]) = Option.bind (added_pages ws) (\<lambda>s. hdy_leaflet_add s w w)"
  by (simp add: added_pages_def)

subsection \<open>The reversed list of children\<close>

text \<open>
  Claim C10. The list \<^verbatim>\<open>children_reversed\<close> is the reverse of the list \<^verbatim>\<open>children\<close>,
  in which no child info is listed twice: this holds after \<^verbatim>\<open>hdy_leaflet_init\<close>, and
  \<^verbatim>\<open>hdy_leaflet_add\<close> of a fresh block, \<^verbatim>\<open>hdy_leaflet_remove\<close> and
  \<^verbatim>\<open>hdy_leaflet_forall\<close> with a callback that keeps it (such as one that removes
  children) keep it. Adding a child appends the child info to \<^verbatim>\<open>children\<close> and prepends
  it to \<^verbatim>\<open>children_reversed\<close>. Removing a child takes the first occurrence of its child
  info out of both lists, and the two lists are already updated when the rest of
  \<^verbatim>\<open>hdy_leaflet_remove\<close> runs, whatever the released block reads as; where the visible
  widget read after the release is not the removed one, \<^verbatim>\<open>hdy_leaflet_remove\<close> returns
  and \<^verbatim>\<open>priv->visible_child\<close> is as before. The traversal rebuilds \<^verbatim>\<open>children_reversed\<close>
  as the reverse of \<^verbatim>\<open>children\<close>, and it returns when every call of the callback does.
\<close>

theorem children_reversed_invariant:
  "children_inv (hdy_leaflet_init mem g) \<and>
   (children_inv s \<and> p \<notin> set (children s) \<and> hdy_leaflet_add s w p = Some s' \<longrightarrow>
      children_inv s') \<and>
   (\<not> w_parent (widgets (gtk s) w) \<and> hdy_leaflet_add s w p = Some s' \<longrightarrow>
      children s' = children s @ [p] \<and> children_reversed s' = p # children_reversed s) \<and>
   children (remove_child_info s c freed) = remove1 c (children s) \<and>
   children_reversed (remove_child_info s c freed) = remove1 c (children_reversed s) \<and>
   (children_inv s \<longrightarrow> children_inv (remove_child_info s c freed)) \<and>
   (find_child_info_for_widget s (Some w) = Some c \<and> hdy_leaflet_remove s w freed = Some s' \<longrightarrow>
      children s' = remove1 c (children s) \<and>
      children_reversed s' = remove1 c (children_reversed s)) \<and>
   (children_inv s \<and> hdy_leaflet_remove s w freed = Some s' \<longrightarrow> children_inv s') \<and>
   (find_child_info_for_widget s (Some w) = Some c \<and>
    hdy_leaflet_get_visible_child (remove_child_info s c freed) \<noteq> Some w \<longrightarrow>
      (\<exists>t. hdy_leaflet_remove s w freed = Some t \<and> visible_child t = visible_child s)) \<and>
   (hdy_leaflet_forall s cb = Some s' \<longrightarrow> children_reversed s' = rev (children s')) \<and>
   (children_inv s \<and> (\<forall>a t t'. children_inv t \<and> cb a t = Some t' \<longrightarrow> children_inv t') \<and>
    hdy_leaflet_forall s cb = Some s' \<longrightarrow> children_inv s') \<and>
   ((\<forall>a t. cb a t \<noteq> None) \<longrightarrow> hdy_leaflet_forall s cb \<noteq> None)"
proof (intro conjI impI)
  show "children_inv (hdy_leaflet_init mem g)"
    by (simp add: children_inv_def hdy_leaflet_init_def)
next
  assume a: "children_inv s \<and> p \<notin> set (children s) \<and> hdy_leaflet_add s w p = Some s'"
  show "children_inv s'"
  proof (cases "w_parent (widgets (gtk s) w)")
    case True
    with a show ?thesis by (auto simp add: hdy_leaflet_add_def)
  next
    case False
    from a have "hdy_leaflet_add s w p = Some s'" by simp
    from hdy_leaflet_add_children [OF False this] a show ?thesis
      by (simp add: children_inv_def)
  qed
next
  assume "\<not> w_parent (widgets (gtk s) w) \<and> hdy_leaflet_add s w p = Some s'"
  then show "children s' = children s @ [p]" "children_reversed s' = p # children_reversed s"
    using hdy_leaflet_add_children by blast+
next
  show "children (remove_child_info s c freed) = remove1 c (children s)"
    "children_reversed (remove_child_info s c freed) = remove1 c (children_reversed s)"
    by simp_all
next
  assume "children_inv s"
  then show "children_inv (remove_child_info s c freed)"
    by (rule remove_child_info_inv)
next
  assume "find_child_info_for_widget s (Some w) = Some c \<and> hdy_leaflet_remove s w freed = Some s'"
  then show "children s' = remove1 c (children s)"
    "children_reversed s' = remove1 c (children_reversed s)"
    using hdy_leaflet_remove_children by blast+
next
  assume a: "children_inv s \<and> hdy_leaflet_remove s w freed = Some s'"
  show "children_inv s'"
  proof (cases "find_child_info_for_widget s (Some w)")
    case None
    with a show ?thesis by (auto simp add: hdy_leaflet_remove_def)
  next
    case (Some d)
    from a have "hdy_leaflet_remove s w freed = Some s'" by simp
    from hdy_leaflet_remove_children [OF Some this] a show ?thesis
      by (simp add: children_inv_def remove1_rev_distinct)
  qed
next
  assume "find_child_info_for_widget s (Some w) = Some c \<and>
    hdy_leaflet_get_visible_child (remove_child_info s c freed) \<noteq> Some w"
  then show "\<exists>t. hdy_leaflet_remove s w freed = Some t \<and> visible_child t = visible_child s"
    using hdy_leaflet_remove_returns by blast
next
  assume "hdy_leaflet_forall s cb = Some s'"
  then show "children_reversed s' = rev (children s')"
    by (auto simp add: hdy_leaflet_forall_def split: option.splits)
next
  assume a: "children_inv s \<and> (\<forall>a t t'. children_inv t \<and> cb a t = Some t' \<longrightarrow> children_inv t') \<and>
    hdy_leaflet_forall s cb = Some s'"
  then obtain t where l: "forall_loop cb (children s) s = Some t"
    and s': "s' = t\<lparr>children_reversed := rev (children t)\<rparr>"
    by (auto simp add: hdy_leaflet_forall_def split: option.splits)
  have "children_inv t"
  proof (rule forall_loop_preserves [where P = children_inv, OF _ _ l])
    show "children_inv s" using a by simp
  next
    fix c u u'
    assume "children_inv u" "cb c u = Some u'"
    with a show "children_inv u'" by blast
  qed
  then show "children_inv s'"
    by (simp add: s' children_inv_def)
next
  assume "\<forall>a t. cb a t \<noteq> None"
  then have "forall_loop cb (children s) s \<noteq> None"
    by (intro forall_loop_returns) simp
  then show "hdy_leaflet_forall s cb \<noteq> None"
    by (auto simp add: hdy_leaflet_forall_def split: option.splits)
qed

theorem children_reversed_witness:
  "map_option (\<lambda>s. (children s, children_reversed s, children_inv s)) (added_pages [1, 2, 3, 4]) =
     Some ([1, 2, 3, 4], [4, 3, 2, 1], True) \<and>
   map_option (\<lambda>s. (children s, children_reversed s, children_inv s))
     (Option.bind (added_pages [1, 2, 3, 4]) (\<lambda>s. hdy_leaflet_remove s 1 (page_info 1))) =
     Some ([2, 3, 4], [4, 3, 2], True) \<and>
   map_option (\<lambda>s. (children s, children_reversed s, children_inv s, visible_child s))
     (Option.bind (added_pages [1, 2, 3, 4]) (\<lambda>s. hdy_leaflet_remove s 1 blank_info)) =
     Some ([2, 3, 4], [4, 3, 2], True, Some 1) \<and>
   map_option (\<lambda>s. (children s, children_reversed s, children_inv s))
     (Option.bind
        (Option.bind (added_pages [1, 2, 3, 4]) (\<lambda>s. hdy_leaflet_remove s 1 (page_info 1)))
        (\<lambda>s. hdy_leaflet_forall s (remove_page 3))) =
     Some ([2, 4], [4, 2], True) \<and>
   map_option (\<lambda>s. (children (remove_child_info s 1 (page_info 1)),
                     children_reversed (remove_child_info s 1 (page_info 1)),
                     children_inv (remove_child_info s 1 (page_info 1)))) (added_pages [1]) =
     Some ([], [], True) \<and>
   map_option children (Option.bind (added_pages [1]) (\<lambda>s. hdy_leaflet_remove s 1 (page_info 1))) =
     None"
proof -
  note T = children_reversed_invariant [of "\<lambda>_. blank_info" fresh_gtk]
  have e1: "map_option (\<lambda>s. (children s, w_parent (widgets (gtk s) 2))) (added_pages [1]) =
      Some ([1], False)"
    and e2: "map_option (\<lambda>s. (children s, w_parent (widgets (gtk s) 3))) (added_pages [1, 2]) =
      Some ([1, 2], False)"
    and e3: "map_option (\<lambda>s. (children s, w_parent (widgets (gtk s) 4))) (added_pages [1, 2, 3]) =
      Some ([1, 2, 3], False)"
    and e4: "map_option (\<lambda>s. (children s, children_reversed s, visible_child s,
        find_child_info_for_widget s (Some 1),
        hdy_leaflet_get_visible_child (remove_child_info s 1 blank_info)))
        (added_pages [1, 2, 3, 4]) =
      Some ([1, 2, 3, 4], [4, 3, 2, 1], Some 1, Some 1, None)"
    and e5: "map_option (\<lambda>s. (children s, children_reversed s))
        (Option.bind (added_pages [1, 2, 3, 4]) (\<lambda>s. hdy_leaflet_remove s 1 (page_info 1))) =
      Some ([2, 3, 4], [4, 3, 2])"
    and e6: "map_option (\<lambda>s. (children s, children_reversed s))
        (Option.bind
           (Option.bind (added_pages [1, 2, 3, 4]) (\<lambda>s. hdy_leaflet_remove s 1 (page_info 1)))
           (\<lambda>s. hdy_leaflet_forall s (remove_page 3))) =
      Some ([2, 4], [4, 2])"
    and e7: "map_option children
        (Option.bind (added_pages [1]) (\<lambda>s. hdy_leaflet_remove s 1 (page_info 1))) = None"
    by code_simp+
  have c0: "children new_leaflet = []" "\<not> w_parent (widgets (gtk new_leaflet) 1)"
    by (simp_all add: example_defs)
  obtain s1 where s1: "added_pages [1] = Some s1"
    and c1: "children s1 = [1]" "\<not> w_parent (widgets (gtk s1) 2)"
    using e1 by (cases "added_pages [1]") auto
  obtain s2 where s2: "added_pages [1, 2] = Some s2"
    and c2: "children s2 = [1, 2]" "\<not> w_parent (widgets (gtk s2) 3)"
    using e2 by (cases "added_pages [1, 2]") auto
  obtain s3 where s3: "added_pages [1, 2, 3] = Some s3"
    and c3: "children s3 = [1, 2, 3]" "\<not> w_parent (widgets (gtk s3) 4)"
    using e3 by (cases "added_pages [1, 2, 3]") auto
  obtain s4 where s4: "added_pages [1, 2, 3, 4] = Some s4"
    and c4: "children s4 = [1, 2, 3, 4]" "children_reversed s4 = [4, 3, 2, 1]"
      "visible_child s4 = Some 1" "find_child_info_for_widget s4 (Some 1) = Some 1"
      "hdy_leaflet_get_visible_child (remove_child_info s4 1 blank_info) = None"
    using e4 by (cases "added_pages [1, 2, 3, 4]") auto
  obtain s5 where s5: "hdy_leaflet_remove s4 1 (page_info 1) = Some s5"
    and c5: "children s5 = [2, 3, 4]" "children_reversed s5 = [4, 3, 2]"
    using e5 s4 by (cases "hdy_leaflet_remove s4 1 (page_info 1)") auto
  obtain s6 where s6: "hdy_leaflet_forall s5 (remove_page 3) = Some s6"
    and c6: "children s6 = [2, 4]" "children_reversed s6 = [4, 2]"
    using e6 s4 s5 by (cases "hdy_leaflet_forall s5 (remove_page 3)") auto
  have a1: "hdy_leaflet_add new_leaflet 1 1 = Some s1"
    using s1 by (simp add: added_pages_def)
  have a2: "hdy_leaflet_add s1 2 2 = Some s2"
    using s2 s1 added_pages_snoc [of "[1]" 2] by simp
  have a3: "hdy_leaflet_add s2 3 3 = Some s3"
    using s3 s2 added_pages_snoc [of "[1, 2]" 3] by simp
  have a4: "hdy_leaflet_add s3 4 4 = Some s4"
    using s4 s3 added_pages_snoc [of "[1, 2, 3]" 4] by simp
  have i0: "children_inv new_leaflet"
    using T [of new_leaflet 1 1 new_leaflet 1 blank_info "remove_page 3"] by (simp add: new_leaflet_def)
  have i1: "children_inv s1"
    using T [of new_leaflet 1 1 s1 1 blank_info "remove_page 3"] i0 c0 a1 by simp
  have i2: "children_inv s2"
    using T [of s1 2 2 s2 1 blank_info "remove_page 3"] i1 c1 a2 by simp
  have i3: "children_inv s3"
    using T [of s2 3 3 s3 1 blank_info "remove_page 3"] i2 c2 a3 by simp
  have i4: "children_inv s4"
    using T [of s3 4 4 s4 1 blank_info "remove_page 3"] i3 c3 a4 by simp
  have l4: "children s4 = children s3 @ [4]" "children_reversed s4 = 4 # children_reversed s3"
    using T [of s3 4 4 s4 1 blank_info "remove_page 3"] c3 a4 by simp_all
  have i5: "children_inv s5"
    using T [of s4 1 1 s5 1 "page_info 1" "remove_page 3"] i4 s5 by simp
  have l5: "children s5 = remove1 1 (children s4)"
    using T [of s4 1 1 s5 1 "page_info 1" "remove_page 3"] c4 s5
    by simp
  obtain t where t: "hdy_leaflet_remove s4 1 blank_info = Some t"
    and vt: "visible_child t = Some 1"
    using T [of s4 1 1 new_leaflet 1 blank_info "remove_page 3"] c4 by auto
  have lt: "children t = [2, 3, 4]" "children_reversed t = [4, 3, 2]" "children_inv t"
    using T [of s4 1 1 t 1 blank_info "remove_page 3"] c4 t i4
    by simp_all
  have cb: "\<forall>a u u'. children_inv u \<and> remove_page 3 a u = Some u' \<longrightarrow> children_inv u'"
  proof (intro allI impI)
    fix a u u'
    assume h: "children_inv u \<and> remove_page 3 a u = Some u'"
    show "children_inv u'"
    proof (cases "a = Some 3")
      case True
      with h have "hdy_leaflet_remove u 3 blank_info = Some u'"
        by (simp add: remove_page_def)
      with h T [of u 1 3 u' 1 blank_info "remove_page 3"] show ?thesis
        by simp
    next
      case False
      with h show ?thesis by (auto simp add: remove_page_def)
    qed
  qed
  have i6: "children_inv s6" "children_reversed s6 = rev (children s6)"
    using T [of s5 1 1 s6 1 blank_info "remove_page 3"] i5 cb s6 by simp_all
  have q: "children (remove_child_info s1 1 (page_info 1)) = []"
    "children_reversed (remove_child_info s1 1 (page_info 1)) = []"
    "children_inv (remove_child_info s1 1 (page_info 1))"
    using T [of s1 1 1 new_leaflet 1 "page_info 1" "remove_page 3"] i1 c1
      i1 [unfolded children_inv_def] by simp_all
  show ?thesis
    unfolding s4 s1
    using c4 s5 c5 i4 i5 t vt lt s6 c6 i6 q e7 [unfolded s1] by simp
qed

subsection \<open>The fold decision\<close>

lemma two_pages_reached:
  "map_option (\<lambda>s. hdy_leaflet_map (hdy_leaflet_realize s 0 0)) (added_pages [1, 2]) =
     Some two_pages"
  by (simp add: added_pages_def two_pages_def page_info_def example_defs hdy_leaflet_add_def
      set_visible_child_info_def switch_visible_child_def hdy_leaflet_get_visible_child_def gtk_widget_get_visible_def
      gtk_widget_set_child_visible_def gtk_widget_set_parent_def gtk_widget_queue_resize_def
      hdy_leaflet_realize_def hdy_leaflet_map_def Let_def fun_upd_twist)



lemma prepare_child_frame: "prepare_child c s = s\<lparr>infos := (infos s)(c := prepared s c)\<rparr>"
  by (simp add: prepare_child_def prepared_def)





text \<open>What the rest of the allocation keeps: the fold, and the visible child.\<close>

lemma set_child_visible_folded [simp]:
  "folded (gtk_widget_set_child_visible w b s) = folded s"
  "visible_child (gtk_widget_set_child_visible w b s) = visible_child s"
  by (simp_all add: gtk_widget_set_child_visible_def split: option.splits)

lemma fold_hide_folded [simp]:
  "folded (fold (folded_hide_child v) D s) = folded s"
  "visible_child (fold (folded_hide_child v) D s) = visible_child s"
  by (induction D arbitrary: s) (simp_all add: folded_hide_child_def split: option.splits)

lemma fold_place_folded [simp]: "folded (fold (folded_place_child v a) D s) = folded s"
  by (induction D arbitrary: s) (simp_all add: folded_place_child_def)

lemma start_loop_folded [simp]:
  "folded (folded_start_loop ori bh m a v D pad s) = folded s"
  by (induction D arbitrary: s pad) (simp_all add: Let_def)

lemma end_loop_folded [simp]:
  "folded (folded_end_loop ori bh m a v D pad s) = folded s"
  by (induction D arbitrary: s pad) (simp_all add: Let_def)

lemma folded_moving_folded [simp]:
  "folded (size_allocate_folded_moving s a v t) = folded s"
  by (simp add: size_allocate_folded_moving_def Let_def)





lemma alloc_loop_folded [simp]:
  "folded (unfolded_alloc_loop ori bh hs pce D r n s) = folded s"
  "visible_child (unfolded_alloc_loop ori bh hs pce D r n s) = visible_child s"
  by (induction D arbitrary: s r n ori bh) (simp_all split: prod.splits)

lemma fold_shift_folded [simp]:
  "folded (fold (unfolded_shift_child ori u d) D s) = folded s"
  by (induction D arbitrary: s) (simp_all add: unfolded_shift_child_def)




lemma fold_apply_folded [simp]: "folded (fold apply_child D s) = folded s"
  by (induction D arbitrary: s)
     (simp_all add: apply_child_def Let_def gtk_widget_size_allocate_def gtk_widget_show_def
        split: option.splits)










subsection \<open>Navigation past the last allowed child\<close>

text \<open>
  Claim C9. \<^verbatim>\<open>hdy_leaflet_navigate\<close> is documented to switch to the previous or next
  child that does not have \<^verbatim>\<open>allow-visible\<close> set to \<^verbatim>\<open>FALSE\<close>, and the claim has it
  return \<^verbatim>\<open>FALSE\<close> when there is no such child. The loop of \<^verbatim>\<open>find_swipeable_child\<close>
  keeps the last child it visited when it runs off the list, whatever its
  \<^verbatim>\<open>allow-visible\<close>: with the first of two pages visible, the second page not allowed
  and swipes forward enabled, navigating forward returns \<^verbatim>\<open>TRUE\<close> and makes the second
  page the visible child.
\<close>

theorem navigate_reaches_disallowed_child:
  "map_option (\<lambda>s. (children s, visible_child s, allow_visible (infos s 2),
                     can_swipe_forward (child_transition s))) locked_pages =
     Some ([1, 2], Some 1, False, True) \<and>
   map_option (\<lambda>s. find_swipeable_child s HDY_NAVIGATION_DIRECTION_FORWARD) locked_pages =
     Some (Some (Some 2)) \<and>
   map_option (\<lambda>(r, s). (r, visible_child s, hdy_leaflet_get_visible_child s,
                          allow_visible (infos s 2)))
     (Option.bind locked_pages (\<lambda>s. hdy_leaflet_navigate s HDY_NAVIGATION_DIRECTION_FORWARD)) =
     Some (True, Some 2, Some 2, False)"
  by code_simp

subsection \<open>Both transitions animated at once\<close>

text \<open>
  Claim C3. \<^verbatim>\<open>hdy_leaflet_start_child_transition\<close> does not animate the child
  transition while a mode transition is going on, but \<^verbatim>\<open>hdy_leaflet_end_swipe\<close>
  schedules the child ticks without looking at the mode transition. The sliding pages
  fold with animation; a gesture begins before the first frame and ends with a swipe to
  the second page: now the tick callback of the mode transition and the tick callback
  of the child transition are both scheduled, and both trackers run.
\<close>

theorem both_transitions_animated:
  "map_option (\<lambda>s. (folded s, mt_tick_id (mode_transition s), mt_tracker (mode_transition s),
                     ct_tick_id (child_transition s))) folding_pages =
     Some (True, 1, GTK_PROGRESS_STATE_DURING, 0) \<and>
   map_option (\<lambda>s. (mt_tick_id (mode_transition s), mt_tracker (mode_transition s),
                     ct_tick_id (child_transition s), ct_tracker (child_transition s)))
     racing_pages =
     Some (1, GTK_PROGRESS_STATE_DURING, 2, GTK_PROGRESS_STATE_DURING)"
  by code_simp

subsection \<open>The homogeneous unfolded layout\<close>

text \<open>
  Claim C5. In the homogeneous case \<^verbatim>\<open>hdy_leaflet_size_allocate_unfolded\<close> computes
  \<^verbatim>\<open>n_expand_children\<close> as the remainder of the width by the number of visible
  children, and then \<^verbatim>\<open>n_extra_widgets\<close> as the remainder of that remainder by itself,
  which is 0: no child gets the extra pixel that the loop over the children would hand
  out, and the widths do not add up to the width of the allocation when it is not a
  multiple of the number of visible children. The two homogeneous pages, allocated a
  width of 201 at position 1, stay unfolded and get 100 each.
\<close>

theorem homogeneous_widths_fall_short:
  "unfolded_repartition homogeneous_pages odd_allocation 2 0 = (100, 1, 0) \<and>
   map_option
     (\<lambda>s. (folded s, current_pos (mode_transition s),
           map (\<lambda>c. (alloc_x (alloc (infos s c)), alloc_y (alloc (infos s c)),
                      alloc_width (alloc (infos s c)), alloc_height (alloc (infos s c))))
             (children s),
           map (\<lambda>p. alloc_width (w_allocation (widgets (gtk s) p))) [1, 2],
           sum_list (map (\<lambda>c. alloc_width (alloc (infos s c))) (children s))))
     (hdy_leaflet_size_allocate homogeneous_pages odd_allocation) =
     Some (False, 1, [(0, 0, 100, 50), (100, 0, 100, 50)], [100, 100], 200)"
  by code_simp

subsection \<open>The folded layout at rest\<close>



lemma apply_child_frame [simp]:
  "infos (apply_child c s) = infos s"
  "realized (gtk (apply_child c s)) = realized (gtk s)"
  by (simp_all add: apply_child_def Let_def gtk_widget_set_child_visible_def
      gtk_widget_size_allocate_def gtk_widget_show_def split: option.splits)

lemma fold_apply_frame [simp]:
  "infos (fold apply_child D s) = infos s"
  "realized (gtk (fold apply_child D s)) = realized (gtk s)"
  by (induction D arbitrary: s) simp_all









subsection \<open>Cancelled gestures\<close>

lemma child_progress_apply_frame [simp]:
  "visible_child (child_progress_apply s) = visible_child s"
  "last_visible_child (child_progress_apply s) = last_visible_child s"
  "folded (child_progress_apply s) = folded s"
  "infos (child_progress_apply s) = infos s"
  "child_transition (child_progress_apply s) = child_transition s"
  "widgets (gtk (child_progress_apply s)) = widgets (gtk s)"
  "mapped (gtk (child_progress_apply s)) = mapped (gtk s)"
  by (simp_all add: child_progress_apply_def move_resize_bin_window_def gtk_widget_queue_draw_def
      gtk_widget_queue_resize_def Let_def split: option.splits)






lemma schedule_child_ticks_frame [simp]:
  "visible_child (hdy_leaflet_schedule_child_ticks s) = visible_child s"
  "last_visible_child (hdy_leaflet_schedule_child_ticks s) = last_visible_child s"
  "folded (hdy_leaflet_schedule_child_ticks s) = folded s"
  "infos (hdy_leaflet_schedule_child_ticks s) = infos s"
  "widgets (gtk (hdy_leaflet_schedule_child_ticks s)) = widgets (gtk s)"
  "mapped (gtk (hdy_leaflet_schedule_child_ticks s)) = mapped (gtk s)"
  "enable_animations (gtk (hdy_leaflet_schedule_child_ticks s)) = enable_animations (gtk s)"
  "transition_type (hdy_leaflet_schedule_child_ticks s) = transition_type s"
  "ct_tick_id (child_transition (hdy_leaflet_schedule_child_ticks s)) \<noteq> 0"
  "(child_transition (hdy_leaflet_schedule_child_ticks s))\<lparr>ct_tick_id := i\<rparr> =
     (child_transition s)\<lparr>ct_tick_id := i\<rparr>"
  by (simp_all add: hdy_leaflet_schedule_child_ticks_def gtk_widget_add_tick_callback_def)

lemma unschedule_child_ticks_frame [simp]:
  "visible_child (hdy_leaflet_unschedule_child_ticks s) = visible_child s"
  "last_visible_child (hdy_leaflet_unschedule_child_ticks s) = last_visible_child s"
  "folded (hdy_leaflet_unschedule_child_ticks s) = folded s"
  "infos (hdy_leaflet_unschedule_child_ticks s) = infos s"
  "widgets (gtk (hdy_leaflet_unschedule_child_ticks s)) = widgets (gtk s)"
  "is_gesture_active (child_transition (hdy_leaflet_unschedule_child_ticks s)) =
     is_gesture_active (child_transition s)"
  by (simp_all add: hdy_leaflet_unschedule_child_ticks_def)















end
